theory Spec2Isabelle
  imports Complex_Main "HOL-Library.Char_ord" "HOL-Library.List_Lexorder"
begin

section \<open>JavaScript \<open>Map\<close>: an insertion-ordered dictionary\<close>

text \<open>
  A JavaScript \<open>Map\<close> iterates in insertion order; \<open>set\<close> on a key that is present
  replaces the value in place, \<open>set\<close> on a new key appends, \<open>delete\<close> removes the key.
  It is modelled as an association list; \<open>size\<close> is the length of the list.
\<close>

fun Map_set :: "'k \<Rightarrow> 'v \<Rightarrow> ('k \<times> 'v) list \<Rightarrow> ('k \<times> 'v) list" where
  "Map_set k v [] = [(k, v)]"
| "Map_set k v ((k', v') # rest) =
     (if k' = k then (k, v) # rest else (k', v') # Map_set k v rest)"

fun Map_delete :: "'k \<Rightarrow> ('k \<times> 'v) list \<Rightarrow> ('k \<times> 'v) list" where
  "Map_delete k [] = []"
| "Map_delete k ((k', v') # rest) =
     (if k' = k then Map_delete k rest else (k', v') # Map_delete k rest)"

definition Map_get :: "('k \<times> 'v) list \<Rightarrow> 'k \<Rightarrow> 'v option" where
  "Map_get m k = map_of m k"

definition Map_has :: "('k \<times> 'v) list \<Rightarrow> 'k \<Rightarrow> bool" where
  "Map_has m k = (map_of m k \<noteq> None)"

section \<open>The in-memory cache (\<open>cacheService.js\<close>)\<close>

text \<open>
  \<open>class CacheEntry\<close>: the constructor reads the clock (\<open>Date.now()\<close>, milliseconds);
  the reading is the parameter \<open>now\<close>. \<open>ttl\<close> is in seconds.
\<close>

record 'v CacheEntry =
  entry_value :: 'v
  expiresAt :: int
  createdAt :: int
  hits :: nat
  lastAccess :: "int option"

definition new_CacheEntry :: "int \<Rightarrow> 'v \<Rightarrow> int \<Rightarrow> 'v CacheEntry" where
  "new_CacheEntry now v ttl =
     \<lparr>entry_value = v, expiresAt = now + ttl * 1000, createdAt = now, hits = 0,
      lastAccess = None\<rparr>"

definition isExpired :: "int \<Rightarrow> 'v CacheEntry \<Rightarrow> bool" where
  "isExpired now e = (now > expiresAt e)"

definition hit :: "int \<Rightarrow> 'v CacheEntry \<Rightarrow> 'v CacheEntry" where
  "hit now e = e\<lparr>hits := hits e + 1, lastAccess := Some now\<rparr>"

record CacheStats =
  stat_hits :: nat
  stat_misses :: nat
  stat_evictions :: nat
  stat_sets :: nat
  stat_expired :: nat

text \<open>
  The section \<open>cache\<close> of the configuration; \<open>None\<close> stands for a value that is
  \<open>undefined\<close> (or \<open>NaN\<close> after a failed \<open>parseInt\<close>).
\<close>

record CacheConfig =
  cfg_enabled :: "bool option"
  cfg_defaultTTL :: "int option"
  cfg_maxSize :: "int option"

record 'v CacheService =
  enabled :: bool
  defaultTTL :: int
  maxSize :: int
  caches :: "(string \<times> (string \<times> 'v CacheEntry) list) list"
  stats :: CacheStats

text \<open>\<open>x || d\<close> on a number: \<open>undefined\<close>, \<open>NaN\<close> and \<open>0\<close> are falsy.\<close>

definition num_or :: "int option \<Rightarrow> int \<Rightarrow> int" where
  "num_or x d = (case x of None \<Rightarrow> d | Some n \<Rightarrow> if n = 0 then d else n)"

definition new_CacheService :: "CacheConfig \<Rightarrow> 'v CacheService" where
  "new_CacheService cfg =
     \<lparr>enabled = (cfg_enabled cfg \<noteq> Some False),
      defaultTTL = num_or (cfg_defaultTTL cfg) 300,
      maxSize = num_or (cfg_maxSize cfg) 1000,
      caches = [],
      stats = \<lparr>stat_hits = 0, stat_misses = 0, stat_evictions = 0, stat_sets = 0,
               stat_expired = 0\<rparr>\<rparr>"

text \<open>
  \<open>_getCache\<close> creates the namespace when it is missing, also on a read. The inner
  \<open>Map\<close> is a shared mutable object: \<open>store_cache\<close> writes a changed namespace back.
\<close>

definition getCache ::
  "'v CacheService \<Rightarrow> string \<Rightarrow> (string \<times> 'v CacheEntry) list \<times> 'v CacheService" where
  "getCache s ns =
     (case Map_get (caches s) ns of
        None \<Rightarrow> ([], s\<lparr>caches := Map_set ns [] (caches s)\<rparr>)
      | Some c \<Rightarrow> (c, s))"

definition store_cache ::
  "string \<Rightarrow> (string \<times> 'v CacheEntry) list \<Rightarrow> 'v CacheService \<Rightarrow> 'v CacheService" where
  "store_cache ns c s = s\<lparr>caches := Map_set ns c (caches s)\<rparr>"

text \<open>The namespace as \<open>cache.size\<close> and the tests see it: a missing one is empty.\<close>

definition namespace_of :: "'v CacheService \<Rightarrow> string \<Rightarrow> (string \<times> 'v CacheEntry) list" where
  "namespace_of s ns = (case Map_get (caches s) ns of None \<Rightarrow> [] | Some c \<Rightarrow> c)"

text \<open>
  The scan of \<open>_evictOne\<close>: the first entry with the smallest \<open>createdAt\<close>
  (\<open>!oldestEntry || entry.createdAt < oldestEntry.createdAt\<close>).
\<close>

fun oldest_scan ::
  "(string \<times> 'v CacheEntry) list \<Rightarrow> (string \<times> 'v CacheEntry) option
     \<Rightarrow> (string \<times> 'v CacheEntry) option" where
  "oldest_scan [] acc = acc"
| "oldest_scan ((k, e) # rest) acc =
     oldest_scan rest
       (case acc of
          None \<Rightarrow> Some (k, e)
        | Some (ok, oe) \<Rightarrow> if createdAt e < createdAt oe then Some (k, e) else acc)"

text \<open>
  \<open>_evictOne\<close>. The guard \<open>if (oldestKey)\<close> is a truthiness test: the empty string is
  falsy, so an oldest entry stored under the key \<open>""\<close> is not deleted.
\<close>

definition evictOne :: "'v CacheService \<Rightarrow> string \<Rightarrow> 'v CacheService" where
  "evictOne s ns =
     (let (c, s1) = getCache s ns in
      if int (length c) < maxSize s1 then s1
      else (case oldest_scan c None of
              None \<Rightarrow> s1
            | Some (oldestKey, oldestEntry) \<Rightarrow>
                if oldestKey \<noteq> [] then
                  (store_cache ns (Map_delete oldestKey c) s1)
                    \<lparr>stats := (stats s1)\<lparr>stat_evictions := stat_evictions (stats s1) + 1\<rparr>\<rparr>
                else s1))"

text \<open>
  \<open>set(namespace, key, value, ttl = this.defaultTTL)\<close>; \<open>ttl = None\<close> is the omitted
  argument. The value is returned and the new state with it.
\<close>

definition cache_set ::
  "'v CacheService \<Rightarrow> int \<Rightarrow> string \<Rightarrow> string \<Rightarrow> 'v \<Rightarrow> int option \<Rightarrow> 'v \<times> 'v CacheService" where
  "cache_set s now ns key v ttl =
     (if \<not> enabled s then (v, s)
      else
        let (c, s1) = getCache s ns;
            s2 = (if int (length c) \<ge> maxSize s1 then evictOne s1 ns else s1);
            entry = new_CacheEntry now v (case ttl of None \<Rightarrow> defaultTTL s | Some t \<Rightarrow> t);
            s3 = store_cache ns (Map_set key entry (namespace_of s2 ns)) s2
        in (v, s3\<lparr>stats := (stats s3)\<lparr>stat_sets := stat_sets (stats s3) + 1\<rparr>\<rparr>))"

text \<open>\<open>get(namespace, key)\<close>; \<open>None\<close> is \<open>undefined\<close>.\<close>

definition cache_get ::
  "'v CacheService \<Rightarrow> int \<Rightarrow> string \<Rightarrow> string \<Rightarrow> 'v option \<times> 'v CacheService" where
  "cache_get s now ns key =
     (if \<not> enabled s then (None, s)
      else
        let (c, s1) = getCache s ns in
        case Map_get c key of
          None \<Rightarrow> (None, s1\<lparr>stats := (stats s1)\<lparr>stat_misses := stat_misses (stats s1) + 1\<rparr>\<rparr>)
        | Some entry \<Rightarrow>
            if isExpired now entry then
              (None,
               (store_cache ns (Map_delete key c) s1)
                 \<lparr>stats := (stats s1)\<lparr>stat_expired := stat_expired (stats s1) + 1,
                                      stat_misses := stat_misses (stats s1) + 1\<rparr>\<rparr>)
            else
              (Some (entry_value entry),
               (store_cache ns (Map_set key (hit now entry) c) s1)
                 \<lparr>stats := (stats s1)\<lparr>stat_hits := stat_hits (stats s1) + 1\<rparr>\<rparr>))"

section \<open>Errors and outcomes\<close>

text \<open>
  The values the code throws. \<open>HttpError st msg\<close> is an error of the HTTP library:
  \<open>error.response.status\<close> is \<open>st\<close>, and \<open>None\<close> means that no response was received
  (network error or timeout). \<open>StoreError statusCode originalError\<close> is the error
  \<open>_handleError\<close> of the store adapter makes of an error \<open>originalError\<close> of the AWS SDK.
  The message keeps distinct error objects apart.
\<close>

record aws_error =
  err_code :: string
  err_message :: string

datatype js_error =
    HttpError "int option" string
  | TypeError string
  | Error string
  | StoreError int aws_error

fun response_status :: "js_error \<Rightarrow> int option" where
  "response_status (HttpError st msg) = st"
| "response_status _ = None"

datatype 'r outcome = Returned 'r | Thrown js_error

section \<open>The retrying client (\<open>tidalApiClient.js\<close>)\<close>

record TidalApiClient =
  maxRetries :: int
  baseDelayMs :: real
  maxDelayMs :: real

text \<open>
  What one call of \<open>requestWithRetry\<close> does: its outcome, the counter \<open>attempts\<close>
  and the delays passed to \<open>setTimeout\<close>, in order.
\<close>

record 'r retry_run =
  outcome :: "'r outcome"
  attempts :: nat
  delays :: "real list"

text \<open>\<open>[400, 401, 403, 404].includes(error.response.status)\<close>\<close>

definition no_retry :: "js_error \<Rightarrow> bool" where
  "no_retry e = (case response_status e of None \<Rightarrow> False | Some st \<Rightarrow> st \<in> {400, 401, 403, 404})"

text \<open>The statement after the loop: \<open>lastError.message\<close> is read before the throw.\<close>

definition throw_last :: "js_error option \<Rightarrow> 'r outcome" where
  "throw_last lastError =
     (case lastError of
        None \<Rightarrow> Thrown (TypeError ''Cannot read properties of null'')
      | Some e \<Rightarrow> Thrown e)"

definition backoff :: "TidalApiClient \<Rightarrow> nat \<Rightarrow> real" where
  "backoff cl attempt = min (maxDelayMs cl) (2 ^ attempt * baseDelayMs cl)"

text \<open>
  The loop \<open>for (let attempt = 0; attempt < retries; attempt++)\<close>.
  \<open>transport n\<close> is what \<open>this.client.request(config)\<close> does in iteration \<open>n\<close>
  (a response, or the error it rejects with); \<open>random n\<close> is the value of
  \<open>Math.random()\<close> in iteration \<open>n\<close>. Delays are real numbers.
\<close>

function retry_loop ::
  "TidalApiClient \<Rightarrow> (nat \<Rightarrow> js_error + 'r) \<Rightarrow> (nat \<Rightarrow> real) \<Rightarrow> int
     \<Rightarrow> nat \<Rightarrow> nat \<Rightarrow> js_error option \<Rightarrow> real list \<Rightarrow> 'r retry_run" where
  "retry_loop cl transport random retries attempt atts lastError ds =
     (if int attempt < retries then
        (case transport attempt of
           Inr response \<Rightarrow> \<lparr>outcome = Returned response, attempts = atts + 1, delays = ds\<rparr>
         | Inl error \<Rightarrow>
             if no_retry error then
               \<lparr>outcome = throw_last (Some error), attempts = atts + 1, delays = ds\<rparr>
             else if int attempt = retries - 1 then
               \<lparr>outcome = throw_last (Some error), attempts = atts + 1, delays = ds\<rparr>
             else
               let baseDelay = backoff cl attempt;
                   jitter = random attempt * (baseDelay * 0.2);
                   delayMs = baseDelay + jitter
               in retry_loop cl transport random retries (attempt + 1) (atts + 1) (Some error)
                    (ds @ [delayMs]))
      else \<lparr>outcome = throw_last lastError, attempts = atts, delays = ds\<rparr>)"
  by pat_completeness auto
termination
  by (relation "measure (\<lambda>(cl, transport, random, retries, attempt, atts, lastError, ds).
                  nat (retries - int attempt))") auto

declare retry_loop.simps [simp del]

text \<open>\<open>requestWithRetry(options)\<close> with \<open>retries = this.maxRetries\<close> by default.\<close>

definition requestWithRetry ::
  "TidalApiClient \<Rightarrow> (nat \<Rightarrow> js_error + 'r) \<Rightarrow> (nat \<Rightarrow> real) \<Rightarrow> int option \<Rightarrow> 'r retry_run" where
  "requestWithRetry cl transport random retries =
     retry_loop cl transport random (case retries of None \<Rightarrow> maxRetries cl | Some r \<Rightarrow> r)
       0 0 None []"

text \<open>The classification of the specification: 429, 5xx, or no response at all.\<close>

definition retryable :: "js_error \<Rightarrow> bool" where
  "retryable e =
     (case response_status e of None \<Rightarrow> True | Some st \<Rightarrow> st = 429 \<or> (500 \<le> st \<and> st \<le> 599))"

text \<open>The delay waited after a failed attempt \<open>n\<close> that is followed by another one.\<close>

definition delay_of :: "TidalApiClient \<Rightarrow> (nat \<Rightarrow> real) \<Rightarrow> nat \<Rightarrow> real" where
  "delay_of cl random n = backoff cl n + random n * (backoff cl n * 0.2)"

section \<open>The durable store (\<open>dynamoDbService.js\<close>)\<close>

text \<open>
  \<open>class DynamoDbService\<close> wraps one table of the store. The table is the list of its
  items; an item's primary key is given by a function \<open>key\<close>. The SDK is outside the
  repository: every call of it either succeeds or rejects with an error of its own.
  \<open>pending\<close> scripts this: the head is what the next SDK call does (\<open>None\<close>: it
  succeeds), and with an empty script every call succeeds.
\<close>

record 'i DynamoDbService =
  items :: "'i list"
  pending :: "aws_error option list"

definition sdk_call :: "'i DynamoDbService \<Rightarrow> aws_error option \<times> 'i DynamoDbService" where
  "sdk_call db = (case pending db of [] \<Rightarrow> (None, db) | r # rest \<Rightarrow> (r, db\<lparr>pending := rest\<rparr>))"

text \<open>\<open>_handleError\<close>: an SDK error is not \<open>isCustom\<close>; the status code follows its code.\<close>

definition handleError :: "aws_error \<Rightarrow> js_error" where
  "handleError e =
     StoreError
       (if err_code e = ''ResourceNotFoundException'' then 404
        else if err_code e = ''ConditionalCheckFailedException'' then 400
        else if err_code e = ''ProvisionedThroughputExceededException'' then 429
        else if err_code e = ''ValidationException'' then 400
        else 500)
       e"

definition putItem ::
  "('i \<Rightarrow> 'k) \<Rightarrow> 'i DynamoDbService \<Rightarrow> 'i \<Rightarrow> (js_error + 'i) \<times> 'i DynamoDbService" where
  "putItem key db item =
     (case sdk_call db of
        (Some e, db1) \<Rightarrow> (Inl (handleError e), db1)
      | (None, db1) \<Rightarrow>
          (Inr item, db1\<lparr>items := item # filter (\<lambda>i. key i \<noteq> key item) (items db1)\<rparr>))"

definition deleteItem ::
  "('i \<Rightarrow> 'k) \<Rightarrow> 'i DynamoDbService \<Rightarrow> 'k \<Rightarrow> (js_error + bool) \<times> 'i DynamoDbService" where
  "deleteItem key db k =
     (case sdk_call db of
        (Some e, db1) \<Rightarrow> (Inl (handleError e), db1)
      | (None, db1) \<Rightarrow> (Inr True, db1\<lparr>items := filter (\<lambda>i. key i \<noteq> k) (items db1)\<rparr>))"

text \<open>
  \<open>query\<close> on the table: the items that satisfy the key condition, in the order of the
  sort key (\<open>ScanIndexForward\<close>; descending when it is false), cut at \<open>Limit\<close>.
\<close>

definition query ::
  "('i \<Rightarrow> bool) \<Rightarrow> ('i \<Rightarrow> 's::linorder) \<Rightarrow> bool \<Rightarrow> nat option \<Rightarrow> 'i DynamoDbService
     \<Rightarrow> (js_error + 'i list) \<times> 'i DynamoDbService" where
  "query cond sortKey scanIndexForward limit db =
     (case sdk_call db of
        (Some e, db1) \<Rightarrow> (Inl (handleError e), db1)
      | (None, db1) \<Rightarrow>
          (let asc = sort_key sortKey (filter cond (items db1));
               ordered = (if scanIndexForward then asc else rev asc)
           in (Inr (case limit of None \<Rightarrow> ordered | Some n \<Rightarrow> take n ordered), db1)))"

text \<open>
  \<open>query\<close> on a secondary index that has a hash key only: the store does not specify the
  order of the items that share the hash key; the model takes the order of the table.
\<close>

definition query_index ::
  "('i \<Rightarrow> bool) \<Rightarrow> nat option \<Rightarrow> 'i DynamoDbService \<Rightarrow> (js_error + 'i list) \<times> 'i DynamoDbService" where
  "query_index cond limit db =
     (case sdk_call db of
        (Some e, db1) \<Rightarrow> (Inl (handleError e), db1)
      | (None, db1) \<Rightarrow>
          (Inr (case limit of None \<Rightarrow> filter cond (items db1)
                | Some n \<Rightarrow> take n (filter cond (items db1))), db1))"

section \<open>The token store (\<open>TokenPersistenceService\<close>)\<close>

text \<open>
  An item of the table \<open>TidalTokens\<close>: partition key \<open>userId\<close>, sort key \<open>accessToken\<close>.
  Times are milliseconds since the epoch (the code stores their ISO strings).
\<close>

record token_item =
  tk_userId :: string
  tk_accessToken :: string
  tk_refreshToken :: string
  tk_expiresAt :: int
  tk_createdAt :: int
  tk_updatedAt :: int

definition token_key :: "token_item \<Rightarrow> string \<times> string" where
  "token_key i = (tk_userId i, tk_accessToken i)"

record TokenPersistenceService =
  dynamoDb :: "token_item DynamoDbService"
  cacheEnabled :: bool
  cacheMaxSize :: "int option"
  tokenCache :: "(string \<times> string) list"

text \<open>What \<open>saveTokens\<close> and \<open>getTokensByUserId\<close> return.\<close>

record token_pair =
  accessToken :: string
  refreshToken :: string
  pair_expiresAt :: int

text \<open>
  \<open>_updateCache\<close>: when the cache has grown past \<open>cacheMaxSize\<close> its first key is
  deleted (\<open>size > undefined\<close> is false).
\<close>

definition updateCache ::
  "TokenPersistenceService \<Rightarrow> string \<Rightarrow> string \<Rightarrow> TokenPersistenceService" where
  "updateCache svc tok rt =
     (if \<not> cacheEnabled svc then svc
      else
        let c = Map_set tok rt (tokenCache svc) in
        svc\<lparr>tokenCache :=
          (case cacheMaxSize svc of
             None \<Rightarrow> c
           | Some m \<Rightarrow> if int (length c) > m then Map_delete (fst (hd c)) c else c)\<rparr>)"

text \<open>\<open>saveTokens(userId, accessToken, refreshToken, expiresIn = 3600)\<close> at the time \<open>now\<close>.\<close>

definition saveTokens ::
  "TokenPersistenceService \<Rightarrow> int \<Rightarrow> string \<Rightarrow> string \<Rightarrow> string \<Rightarrow> int option
     \<Rightarrow> (js_error + token_pair) \<times> TokenPersistenceService" where
  "saveTokens svc now userId tok rt expiresIn =
     (let expires = now + (case expiresIn of None \<Rightarrow> 3600 | Some n \<Rightarrow> n) * 1000;
          tokenItem = \<lparr>tk_userId = userId, tk_accessToken = tok, tk_refreshToken = rt,
                       tk_expiresAt = expires, tk_createdAt = now, tk_updatedAt = now\<rparr>
      in case putItem token_key (dynamoDb svc) tokenItem of
           (Inl error, db1) \<Rightarrow> (Inl error, svc\<lparr>dynamoDb := db1\<rparr>)
         | (Inr saved, db1) \<Rightarrow>
             (Inr \<lparr>accessToken = tok, refreshToken = rt, pair_expiresAt = expires\<rparr>,
              (if cacheEnabled svc then updateCache (svc\<lparr>dynamoDb := db1\<rparr>) tok rt
               else svc\<lparr>dynamoDb := db1\<rparr>)))"

text \<open>
  \<open>getTokensByUserId\<close>: \<open>Limit: 1, ScanIndexForward: false\<close>, so the item of the user
  with the greatest sort key, which is the access token.
\<close>

definition getTokensByUserId ::
  "TokenPersistenceService \<Rightarrow> string
     \<Rightarrow> (js_error + token_pair option) \<times> TokenPersistenceService" where
  "getTokensByUserId svc userId =
     (case query (\<lambda>i. tk_userId i = userId) tk_accessToken False (Some 1) (dynamoDb svc) of
        (Inl error, db1) \<Rightarrow> (Inl error, svc\<lparr>dynamoDb := db1\<rparr>)
      | (Inr [], db1) \<Rightarrow> (Inr None, svc\<lparr>dynamoDb := db1\<rparr>)
      | (Inr (tokenData # others), db1) \<Rightarrow>
          (Inr (Some \<lparr>accessToken = tk_accessToken tokenData,
                      refreshToken = tk_refreshToken tokenData,
                      pair_expiresAt = tk_expiresAt tokenData\<rparr>),
           (if cacheEnabled svc
            then updateCache (svc\<lparr>dynamoDb := db1\<rparr>) (tk_accessToken tokenData)
                   (tk_refreshToken tokenData)
            else svc\<lparr>dynamoDb := db1\<rparr>)))"

text \<open>\<open>getRefreshTokenByAccessToken\<close>: the cache first, then the index \<open>AccessTokenIndex\<close>.\<close>

definition getRefreshTokenByAccessToken ::
  "TokenPersistenceService \<Rightarrow> string \<Rightarrow> (js_error + string option) \<times> TokenPersistenceService" where
  "getRefreshTokenByAccessToken svc tok =
     (if cacheEnabled svc \<and> Map_has (tokenCache svc) tok then (Inr (Map_get (tokenCache svc) tok), svc)
      else
        case query_index (\<lambda>i. tk_accessToken i = tok) (Some 1) (dynamoDb svc) of
          (Inl error, db1) \<Rightarrow> (Inl error, svc\<lparr>dynamoDb := db1\<rparr>)
        | (Inr [], db1) \<Rightarrow> (Inr None, svc\<lparr>dynamoDb := db1\<rparr>)
        | (Inr (found # others), db1) \<Rightarrow>
            (Inr (Some (tk_refreshToken found)),
             (if cacheEnabled svc then updateCache (svc\<lparr>dynamoDb := db1\<rparr>) tok (tk_refreshToken found)
              else svc\<lparr>dynamoDb := db1\<rparr>)))"

definition deleteTokens ::
  "TokenPersistenceService \<Rightarrow> string \<Rightarrow> string \<Rightarrow> (js_error + bool) \<times> TokenPersistenceService" where
  "deleteTokens svc userId tok =
     (case deleteItem token_key (dynamoDb svc) (userId, tok) of
        (Inl error, db1) \<Rightarrow> (Inl error, svc\<lparr>dynamoDb := db1\<rparr>)
      | (Inr ok, db1) \<Rightarrow>
          (Inr True,
           (if cacheEnabled svc
            then svc\<lparr>dynamoDb := db1, tokenCache := Map_delete tok (tokenCache svc)\<rparr>
            else svc\<lparr>dynamoDb := db1\<rparr>)))"

text \<open>
  \<open>updateTokens\<close>: \<open>deleteTokens\<close> of the old pair (when \<open>oldAccessToken\<close> is truthy),
  then \<open>saveTokens\<close> of the new pair; an error of either is rethrown.
\<close>

definition updateTokens ::
  "TokenPersistenceService \<Rightarrow> int \<Rightarrow> string \<Rightarrow> string \<Rightarrow> string \<Rightarrow> string \<Rightarrow> int option
     \<Rightarrow> (js_error + token_pair) \<times> TokenPersistenceService" where
  "updateTokens svc now userId oldAccessToken newAccessToken newRefreshToken expiresIn =
     (case (if oldAccessToken \<noteq> [] then deleteTokens svc userId oldAccessToken
            else (Inr True, svc)) of
        (Inl error, svc1) \<Rightarrow> (Inl error, svc1)
      | (Inr ok, svc1) \<Rightarrow>
          saveTokens svc1 now userId newAccessToken newRefreshToken
            (Some (case expiresIn of None \<Rightarrow> 3600 | Some n \<Rightarrow> n)))"

text \<open>The item stored under a primary key, if any (what \<open>getItem\<close> would find).\<close>

definition stored_pair :: "TokenPersistenceService \<Rightarrow> string \<Rightarrow> string \<Rightarrow> token_item option" where
  "stored_pair svc userId tok = find (\<lambda>i. token_key i = (userId, tok)) (items (dynamoDb svc))"

section \<open>The token-refresh coordinator (\<open>TidalService._executeWithTokenRefresh\<close>)\<close>

text \<open>
  \<open>String.prototype.replace(pattern, replacement)\<close> with a string pattern: the first
  occurrence of the pattern is replaced. In the replacement \<open>$$\<close> stands for \<open>$\<close>,
  \<open>$&\<close> for the matched text, \<open>$`\<close> for the text before the match and \<open>$'\<close> for
  the text after it; there are no capture groups, so \<open>$1\<close> and the like stay as they are.
\<close>

fun starts_with :: "string \<Rightarrow> string \<Rightarrow> bool" where
  "starts_with s [] = True"
| "starts_with [] (p # ps) = False"
| "starts_with (c # cs) (p # ps) = (c = p \<and> starts_with cs ps)"

fun split_at_first :: "string \<Rightarrow> string \<Rightarrow> (string \<times> string) option" where
  "split_at_first pat [] = (if pat = [] then Some ([], []) else None)"
| "split_at_first pat (c # cs) =
     (if starts_with (c # cs) pat then Some ([], drop (length pat) (c # cs))
      else map_option (\<lambda>(lead, trail). (c # lead, trail)) (split_at_first pat cs))"

fun get_substitution :: "string \<Rightarrow> string \<Rightarrow> string \<Rightarrow> string \<Rightarrow> string" where
  "get_substitution matched lead trail [] = []"
| "get_substitution matched lead trail [c] = [c]"
| "get_substitution matched lead trail (c # d # rest) =
     (if c = CHR ''$'' \<and> d = CHR ''$'' then CHR ''$'' # get_substitution matched lead trail rest
      else if c = CHR ''$'' \<and> d = CHR ''&'' then matched @ get_substitution matched lead trail rest
      else if c = CHR ''$'' \<and> d = CHR 0x60 then lead @ get_substitution matched lead trail rest
      else if c = CHR ''$'' \<and> d = CHR 0x27 then trail @ get_substitution matched lead trail rest
      else c # get_substitution matched lead trail (d # rest))"

definition js_replace :: "string \<Rightarrow> string \<Rightarrow> string \<Rightarrow> string" where
  "js_replace s pat replacement =
     (case split_at_first pat s of
        None \<Rightarrow> s
      | Some (lead, trail) \<Rightarrow> lead @ get_substitution pat lead trail replacement @ trail)"

text \<open>
  \<open>apiCallFn\<close> is a function without parameters that closes over the access token, such
  as \<open>() => tidalApi.get('/me', {}, accessToken)\<close>. \<open>invoke n\<close> is what its invocation
  number \<open>n\<close> (from 0) does; \<open>source_text\<close> is \<open>apiCallFn.toString()\<close>.
\<close>

record 'a ApiCall =
  invoke :: "nat \<Rightarrow> js_error + 'a"
  source_text :: string

text \<open>The body of the token endpoint's response (\<open>response.data\<close>).\<close>

record token_response =
  access_token :: string
  refresh_token :: string
  expires_in :: "int option"

text \<open>
  \<open>tidalApi.refreshAccessToken\<close>: one \<open>requestWithRetry\<close> with \<open>retries: 5\<close>;
  \<open>transport rt\<close> is the transport of the request that carries the refresh token \<open>rt\<close>.
\<close>

definition refreshAccessToken ::
  "TidalApiClient \<Rightarrow> (string \<Rightarrow> nat \<Rightarrow> js_error + token_response) \<Rightarrow> (nat \<Rightarrow> real) \<Rightarrow> string
     \<Rightarrow> js_error + token_response" where
  "refreshAccessToken cl transport random rt =
     (case outcome (requestWithRetry cl (transport rt) random (Some 5)) of
        Returned response \<Rightarrow> Inr response
      | Thrown error \<Rightarrow> Inl error)"

text \<open>
  The state the coordinator works on: the token store, and how often \<open>apiCallFn\<close> has
  been invoked.
\<close>

record coordinator_state =
  tokenPersistenceService :: TokenPersistenceService
  invocations :: nat

text \<open>What the coordinator returns: a result of \<open>apiCallFn\<close>, or a string.\<close>

datatype 'a api_result = ApiValue 'a | SourceText string

text \<open>A string that may be \<open>undefined\<close> is truthy when it is defined and not empty.\<close>

definition truthy :: "string option \<Rightarrow> bool" where
  "truthy s = (case s of None \<Rightarrow> False | Some t \<Rightarrow> t \<noteq> [])"

text \<open>
  The lookup of the refresh token: by \<open>userId\<close> when there is one
  (\<open>tokens && tokens.refreshToken\<close>), else or without success by the access token.
  \<open>Inr None\<close>: no refresh token was found (\<open>!refreshToken\<close>).
\<close>

definition resolveRefreshToken ::
  "TokenPersistenceService \<Rightarrow> string option \<Rightarrow> string
     \<Rightarrow> (js_error + string option) \<times> TokenPersistenceService" where
  "resolveRefreshToken svc userId accessTok =
     (case (if truthy userId then
              (case getTokensByUserId svc (the userId) of
                 (Inl e, svc1) \<Rightarrow> (Inl e, svc1)
               | (Inr None, svc1) \<Rightarrow> (Inr None, svc1)
               | (Inr (Some tokens), svc1) \<Rightarrow>
                   (Inr (if refreshToken tokens \<noteq> [] then Some (refreshToken tokens) else None),
                    svc1))
            else (Inr None, svc)) of
        (Inl e, svc1) \<Rightarrow> (Inl e, svc1)
      | (Inr (Some rt), svc1) \<Rightarrow> (Inr (Some rt), svc1)
      | (Inr None, svc1) \<Rightarrow>
          (case getRefreshTokenByAccessToken svc1 accessTok of
             (Inl e, svc2) \<Rightarrow> (Inl e, svc2)
           | (Inr rt, svc2) \<Rightarrow> (Inr (if truthy rt then rt else None), svc2)))"

text \<open>
  The inner \<open>try\<close> block, entered after a 401 with the original \<open>error\<close> at hand.
  \<open>exchange\<close> is \<open>tidalApi.refreshAccessToken\<close>. \<open>clearCache\<close> is what
  \<open>_clearTokenRelatedCache\<close> does for an access token: it returns (\<open>None\<close>) or throws;
  the cache module it calls (\<open>../utils/cacheService\<close>) is not among the sources.
  The last step builds \<open>updatedApiCallFn\<close> and calls it: the text of \<open>apiCallFn\<close> with
  the old token replaced is returned, and \<open>apiCallFn\<close> is not invoked again.
\<close>

definition refresh_and_retry ::
  "(string \<Rightarrow> js_error + token_response) \<Rightarrow> (string \<Rightarrow> js_error option) \<Rightarrow> int
     \<Rightarrow> 'a ApiCall \<Rightarrow> string \<Rightarrow> string option \<Rightarrow> js_error \<Rightarrow> coordinator_state
     \<Rightarrow> (js_error + 'a api_result) \<times> coordinator_state" where
  "refresh_and_retry exchange clearCache now apiCallFn accessTok userId error w =
     (case resolveRefreshToken (tokenPersistenceService w) userId accessTok of
        (Inl e, svc1) \<Rightarrow> (Inl e, w\<lparr>tokenPersistenceService := svc1\<rparr>)
      | (Inr None, svc1) \<Rightarrow> (Inl error, w\<lparr>tokenPersistenceService := svc1\<rparr>)
      | (Inr (Some rt), svc1) \<Rightarrow>
          (case exchange rt of
             Inl e \<Rightarrow> (Inl e, w\<lparr>tokenPersistenceService := svc1\<rparr>)
           | Inr newTokens \<Rightarrow>
               (case (if truthy userId then
                        updateTokens svc1 now (the userId) accessTok (access_token newTokens)
                          (refresh_token newTokens) (expires_in newTokens)
                      else
                        saveTokens svc1 now ''anonymous'' (access_token newTokens)
                          (refresh_token newTokens) (expires_in newTokens)) of
                  (Inl e, svc2) \<Rightarrow> (Inl e, w\<lparr>tokenPersistenceService := svc2\<rparr>)
                | (Inr saved, svc2) \<Rightarrow>
                    (case clearCache accessTok of
                       Some e \<Rightarrow> (Inl e, w\<lparr>tokenPersistenceService := svc2\<rparr>)
                     | None \<Rightarrow>
                         (Inr (SourceText
                                 (js_replace (source_text apiCallFn) accessTok
                                    (access_token newTokens))),
                          w\<lparr>tokenPersistenceService := svc2\<rparr>)))))"

text \<open>
  \<open>_executeWithTokenRefresh(apiCallFn, accessToken, userId)\<close>. An error that is not a
  401, or any error when there is no access token, is rethrown at once. Whatever the
  inner \<open>try\<close> block throws is caught and the original error is thrown in its place.
\<close>

definition executeWithTokenRefresh ::
  "(string \<Rightarrow> js_error + token_response) \<Rightarrow> (string \<Rightarrow> js_error option) \<Rightarrow> int
     \<Rightarrow> 'a ApiCall \<Rightarrow> string option \<Rightarrow> string option \<Rightarrow> coordinator_state
     \<Rightarrow> 'a api_result outcome \<times> coordinator_state" where
  "executeWithTokenRefresh exchange clearCache now apiCallFn accessTok userId w =
     (case invoke apiCallFn (invocations w) of
        Inr result \<Rightarrow> (Returned (ApiValue result), w\<lparr>invocations := invocations w + 1\<rparr>)
      | Inl error \<Rightarrow>
          (let w1 = w\<lparr>invocations := invocations w + 1\<rparr> in
           if response_status error \<noteq> Some 401 \<or> \<not> truthy accessTok then (Thrown error, w1)
           else
             (case refresh_and_retry exchange clearCache now apiCallFn (the accessTok) userId
                     error w1 of
                (Inl refreshError, w2) \<Rightarrow> (Thrown error, w2)
              | (Inr result, w2) \<Rightarrow> (Returned result, w2))))"

section \<open>The playback session store (\<open>PlaybackPersistenceService\<close>)\<close>

text \<open>
  A track of a stored track list (\<open>{id, title, artist}\<close>) and a playback snapshot.
  A snapshot is a JavaScript object; it is modelled as a record of optional, typed
  fields, \<open>None\<close> for a property that is absent or \<open>undefined\<close> (\<open>JSON.stringify\<close>
  drops both), so that storing a snapshot and parsing it again gives it back.
  Times are milliseconds since the epoch.
\<close>

record track =
  track_id :: string
  track_title :: "string option"
  track_artist :: "string option"

record snapshot =
  snap_type :: "string option"
  trackId :: "string option"
  snap_title :: "string option"
  snap_artist :: "string option"
  offsetInMilliseconds :: "int option"
  snap_token :: "string option"
  currentIndex :: "int option"
  snap_url :: "string option"
  trackList :: "track list option"
  playlistId :: "string option"
  playlistName :: "string option"
  albumId :: "string option"
  albumName :: "string option"
  artistId :: "string option"
  artistName :: "string option"
  updatedAt :: "int option"
  pausedAt :: "int option"
  snap_error :: "string option"
  errorType :: "string option"
  errorTimestamp :: "int option"
  isComplete :: "bool option"
  completedAt :: "int option"

text \<open>The object \<open>{}\<close>.\<close>

definition empty_snapshot :: snapshot where
  "empty_snapshot =
     \<lparr>snap_type = None, trackId = None, snap_title = None, snap_artist = None,
      offsetInMilliseconds = None, snap_token = None, currentIndex = None, snap_url = None,
      trackList = None, playlistId = None, playlistName = None, albumId = None,
      albumName = None, artistId = None, artistName = None, updatedAt = None,
      pausedAt = None, snap_error = None, errorType = None, errorTimestamp = None,
      isComplete = None, completedAt = None\<rparr>"

text \<open>
  An item of the table \<open>TidalPlaybackState\<close>: partition key \<open>userId\<close>, sort key
  \<open>timestamp\<close> (an ISO string in the code, whose order is the order of the times).
  The attribute \<open>ttl\<close> is written as the code writes it; the removal of items by the
  table once it has passed is no part of the code and is not modelled.
\<close>

record playback_item =
  pb_userId :: string
  pb_timestamp :: int
  pb_state :: snapshot
  pb_ttl :: int
  pb_createdAt :: int

definition playback_key :: "playback_item \<Rightarrow> string \<times> int" where
  "playback_key i = (pb_userId i, pb_timestamp i)"

text \<open>
  The service and the clock it reads: \<open>clock n\<close> is the value of reading number \<open>n\<close>
  of \<open>new Date()\<close>, \<open>ticks\<close> counts the readings made so far.
\<close>

record PlaybackPersistenceService =
  playbackDb :: "playback_item DynamoDbService"
  clock :: "nat \<Rightarrow> int"
  ticks :: nat

definition new_Date :: "PlaybackPersistenceService \<Rightarrow> int \<times> PlaybackPersistenceService" where
  "new_Date svc = (clock svc (ticks svc), svc\<lparr>ticks := ticks svc + 1\<rparr>)"

text \<open>\<open>PLAYBACK_TTL_SECONDS\<close>\<close>

definition PLAYBACK_TTL_SECONDS :: int where
  "PLAYBACK_TTL_SECONDS = 24 * 60 * 60"

definition savePlaybackState ::
  "PlaybackPersistenceService \<Rightarrow> string \<Rightarrow> snapshot
     \<Rightarrow> (js_error + snapshot) \<times> PlaybackPersistenceService" where
  "savePlaybackState svc userId playbackState =
     (let (now, svc1) = new_Date svc;
          stateItem = \<lparr>pb_userId = userId, pb_timestamp = now, pb_state = playbackState,
                       pb_ttl = now div 1000 + PLAYBACK_TTL_SECONDS, pb_createdAt = now\<rparr>
      in case putItem playback_key (playbackDb svc1) stateItem of
           (Inl err, db1) \<Rightarrow> (Inl err, svc1\<lparr>playbackDb := db1\<rparr>)
         | (Inr saved, db1) \<Rightarrow> (Inr playbackState, svc1\<lparr>playbackDb := db1\<rparr>))"

text \<open>\<open>getLatestPlaybackState\<close>: \<open>Limit: 1, ScanIndexForward: false\<close>; \<open>None\<close> is \<open>null\<close>.\<close>

definition getLatestPlaybackState ::
  "PlaybackPersistenceService \<Rightarrow> string
     \<Rightarrow> (js_error + snapshot option) \<times> PlaybackPersistenceService" where
  "getLatestPlaybackState svc userId =
     (case query (\<lambda>i. pb_userId i = userId) pb_timestamp False (Some 1) (playbackDb svc) of
        (Inl err, db1) \<Rightarrow> (Inl err, svc\<lparr>playbackDb := db1\<rparr>)
      | (Inr [], db1) \<Rightarrow> (Inr None, svc\<lparr>playbackDb := db1\<rparr>)
      | (Inr (result # others), db1) \<Rightarrow> (Inr (Some (pb_state result)), svc\<lparr>playbackDb := db1\<rparr>))"

text \<open>
  \<open>updateTrackState(userId, token, updates)\<close>. \<open>updates\<close> is an object literal; it is
  given as the assignments it makes when it is spread onto an object, so that
  \<open>{...currentState, ...updates}\<close> is \<open>updates currentState\<close> and \<open>{...updates}\<close> is
  \<open>updates empty_snapshot\<close>.
\<close>

definition updateTrackState ::
  "PlaybackPersistenceService \<Rightarrow> string \<Rightarrow> string \<Rightarrow> (snapshot \<Rightarrow> snapshot)
     \<Rightarrow> (js_error + snapshot option) \<times> PlaybackPersistenceService" where
  "updateTrackState svc userId tok updates =
     (case getLatestPlaybackState svc userId of
        (Inl err, svc1) \<Rightarrow> (Inl err, svc1)
      | (Inr None, svc1) \<Rightarrow> (Inr None, svc1)
      | (Inr (Some currentState), svc1) \<Rightarrow>
          if snap_token currentState \<noteq> Some tok then
            (let (now, svc2) = new_Date svc1;
                 newState = (updates empty_snapshot)\<lparr>snap_token := Some tok, updatedAt := Some now\<rparr>
             in case savePlaybackState svc2 userId newState of
                  (Inl err, svc3) \<Rightarrow> (Inl err, svc3)
                | (Inr saved, svc3) \<Rightarrow> (Inr (Some saved), svc3))
          else
            (let (now, svc2) = new_Date svc1;
                 updatedState = (updates currentState)\<lparr>updatedAt := Some now\<rparr>
             in case savePlaybackState svc2 userId updatedState of
                  (Inl err, svc3) \<Rightarrow> (Inl err, svc3)
                | (Inr saved, svc3) \<Rightarrow> (Inr (Some saved), svc3)))"

text \<open>What \<open>getPlaylist\<close> returns.\<close>

record playlist_info =
  pl_trackList :: "track list"
  pl_currentIndex :: int

text \<open>
  \<open>getPlaylist\<close>: \<open>null\<close> unless the latest snapshot has the type \<open>'playlist'\<close>;
  \<open>state.trackList || []\<close> and \<open>state.currentIndex || 0\<close>.
\<close>

definition getPlaylist ::
  "PlaybackPersistenceService \<Rightarrow> string
     \<Rightarrow> (js_error + playlist_info option) \<times> PlaybackPersistenceService" where
  "getPlaylist svc userId =
     (case getLatestPlaybackState svc userId of
        (Inl err, svc1) \<Rightarrow> (Inl err, svc1)
      | (Inr None, svc1) \<Rightarrow> (Inr None, svc1)
      | (Inr (Some state), svc1) \<Rightarrow>
          if snap_type state \<noteq> Some ''playlist'' then (Inr None, svc1)
          else
            (Inr (Some \<lparr>pl_trackList = (case trackList state of None \<Rightarrow> [] | Some ts \<Rightarrow> ts),
                         pl_currentIndex = (case currentIndex state of None \<Rightarrow> 0 | Some i \<Rightarrow> i)\<rparr>),
             svc1))"

text \<open>\<open>updatePlaylistIndex\<close>: the index is clamped into the list before it is stored.\<close>

definition updatePlaylistIndex ::
  "PlaybackPersistenceService \<Rightarrow> string \<Rightarrow> int
     \<Rightarrow> (js_error + playlist_info option) \<times> PlaybackPersistenceService" where
  "updatePlaylistIndex svc userId newIndex =
     (case getPlaylist svc userId of
        (Inl err, svc1) \<Rightarrow> (Inl err, svc1)
      | (Inr None, svc1) \<Rightarrow> (Inr None, svc1)
      | (Inr (Some playlist), svc1) \<Rightarrow>
          (let validIndex = max 0 (min newIndex (int (length (pl_trackList playlist)) - 1));
               (now, svc2) = new_Date svc1;
               updatedState = empty_snapshot
                 \<lparr>snap_type := Some ''playlist'', trackList := Some (pl_trackList playlist),
                  currentIndex := Some validIndex, updatedAt := Some now\<rparr>
           in case savePlaybackState svc2 userId updatedState of
                (Inl err, svc3) \<Rightarrow> (Inl err, svc3)
              | (Inr saved, svc3) \<Rightarrow>
                  (Inr (Some \<lparr>pl_trackList = pl_trackList playlist, pl_currentIndex = validIndex\<rparr>),
                   svc3)))"

text \<open>
  The latest snapshot of a user as the table holds it: the item with the greatest
  timestamp. This reads the table without a call of the SDK.
\<close>

definition latest_snapshot :: "PlaybackPersistenceService \<Rightarrow> string \<Rightarrow> snapshot option" where
  "latest_snapshot svc userId =
     (case rev (sort_key pb_timestamp (filter (\<lambda>i. pb_userId i = userId) (items (playbackDb svc)))) of
        [] \<Rightarrow> None
      | result # others \<Rightarrow> Some (pb_state result))"

section \<open>The playback state machine (\<open>AudioPlayerEventHandler\<close>)\<close>

text \<open>
  The request of an \<open>AudioPlayer\<close> event: \<open>eventName\<close> is the part of the request type
  after \<open>AudioPlayer.\<close>; \<open>req_error\<close> is the pair \<open>(type, message)\<close> of \<open>request.error\<close>.
\<close>

record AudioPlayerRequest =
  eventName :: string
  req_userId :: string
  req_accessToken :: "string option"
  req_token :: string
  req_offsetInMilliseconds :: "int option"
  req_error :: "(string option \<times> string option) option"

text \<open>
  The response: empty, or with the directive to play a stream
  (\<open>addAudioPlayerPlayDirective('REPLACE_ALL', url, token, offset, null, metadata)\<close>).
  The fields of \<open>PlayDirective\<close> are the url, the token and the offset, then of the
  metadata the index and the track list.
\<close>

datatype response =
    EmptyResponse
  | PlayDirective string string int int "track list"

text \<open>
  What the handler works on: the session store and \<open>sessionAttributes.currentlyPlaying\<close>.
\<close>

record handler_state =
  persistence :: PlaybackPersistenceService
  session :: "snapshot option"

text \<open>\<open>x || 'playlist'\<close> on a string that may be \<open>undefined\<close>.\<close>

definition type_or_playlist :: "string option \<Rightarrow> string" where
  "type_or_playlist t = (if truthy t then the t else ''playlist'')"

text \<open>
  The \<open>try\<close> block of the case \<open>PlaybackFinished\<close> that plays the next track, entered with
  an access token. \<open>getStreamUrl accessToken trackId userId\<close> is
  \<open>tidalService.getStreamUrl\<close>, the catalog layer. \<open>trackList[nextIndex]\<close> is
  \<open>undefined\<close> for an index outside the list, and reading its \<open>title\<close> throws.
\<close>

definition play_next ::
  "(string \<Rightarrow> string \<Rightarrow> string \<Rightarrow> js_error + string) \<Rightarrow> string \<Rightarrow> string \<Rightarrow> snapshot
     \<Rightarrow> playlist_info \<Rightarrow> handler_state \<Rightarrow> (js_error + response) \<times> handler_state" where
  "play_next getStreamUrl userId accessTok playbackState playlist hs =
     (let nextIndex = pl_currentIndex playlist + 1 in
      if nextIndex < 0 \<or> int (length (pl_trackList playlist)) \<le> nextIndex then
        (Inl (TypeError ''Cannot read properties of undefined''), hs)
      else
        let nextTrack = pl_trackList playlist ! nat nextIndex in
        case getStreamUrl accessTok (track_id nextTrack) userId of
          Inl err \<Rightarrow> (Inl err, hs)
        | Inr streamUrl \<Rightarrow>
            (case updatePlaylistIndex (persistence hs) userId nextIndex of
               (Inl err, svc1) \<Rightarrow> (Inl err, hs\<lparr>persistence := svc1\<rparr>)
             | (Inr updated, svc1) \<Rightarrow>
                 (case savePlaybackState svc1 userId
                         (empty_snapshot
                            \<lparr>snap_type := Some (type_or_playlist (snap_type playbackState)),
                             trackId := Some (track_id nextTrack),
                             snap_title := track_title nextTrack,
                             snap_artist := track_artist nextTrack,
                             offsetInMilliseconds := Some 0,
                             snap_token := Some (track_id nextTrack),
                             currentIndex := Some nextIndex,
                             snap_url := Some streamUrl,
                             playlistId := playlistId playbackState,
                             playlistName := playlistName playbackState,
                             albumId := albumId playbackState,
                             albumName := albumName playbackState,
                             artistId := artistId playbackState,
                             artistName := artistName playbackState\<rparr>) of
                    (Inl err, svc2) \<Rightarrow> (Inl err, hs\<lparr>persistence := svc2\<rparr>)
                  | (Inr saved, svc2) \<Rightarrow>
                      (Inr (PlayDirective streamUrl (track_id nextTrack) 0 nextIndex
                              (pl_trackList playlist)),
                       hs\<lparr>persistence := svc2,
                          session :=
                            (case session hs of
                               None \<Rightarrow> None
                             | Some cp \<Rightarrow>
                                 Some (cp\<lparr>currentIndex := Some nextIndex,
                                          snap_title := track_title nextTrack,
                                          snap_artist := track_artist nextTrack,
                                          snap_token := Some (track_id nextTrack)\<rparr>))\<rparr>))))"

text \<open>
  \<open>savePlaybackState\<close> inside a \<open>try\<close> whose \<open>catch\<close> only logs: an error is dropped.
\<close>

definition save_quietly :: "handler_state \<Rightarrow> string \<Rightarrow> snapshot \<Rightarrow> handler_state" where
  "save_quietly hs userId st = hs\<lparr>persistence := snd (savePlaybackState (persistence hs) userId st)\<rparr>"

text \<open>
  The case \<open>PlaybackFinished\<close>. \<open>playbackState\<close> is the snapshot the handler read at its
  start. The event's token is not a parameter: the case only logs it.
\<close>

definition handle_PlaybackFinished ::
  "(string \<Rightarrow> string \<Rightarrow> string \<Rightarrow> js_error + string) \<Rightarrow> string \<Rightarrow> string option \<Rightarrow> snapshot
     \<Rightarrow> handler_state \<Rightarrow> response \<times> handler_state" where
  "handle_PlaybackFinished getStreamUrl userId accessTok playbackState hs =
     (let (playlist, svc1) =
            (case getPlaylist (persistence hs) userId of
               (Inl err, s) \<Rightarrow> (None, s)
             | (Inr p, s) \<Rightarrow> (p, s));
          hs1 = hs\<lparr>persistence := svc1\<rparr>
      in
      if (case playlist of
            None \<Rightarrow> False
          | Some pl \<Rightarrow> pl_currentIndex pl < int (length (pl_trackList pl)) - 1)
      then
        (if \<not> truthy accessTok then (EmptyResponse, hs1)
         else
           (case play_next getStreamUrl userId (the accessTok) playbackState (the playlist) hs1 of
              (Inr resp, hs2) \<Rightarrow> (resp, hs2)
            | (Inl err, hs2) \<Rightarrow>
                (let (now, svc3) = new_Date (persistence hs2) in
                 (EmptyResponse,
                  save_quietly (hs2\<lparr>persistence := svc3\<rparr>) userId
                    (playbackState
                       \<lparr>snap_error := Some ''No se pudo reproducir la siguiente pista'',
                        errorTimestamp := Some now\<rparr>)))))
      else
        (let (now, svc3) = new_Date (persistence hs1) in
         (EmptyResponse,
          save_quietly (hs1\<lparr>persistence := svc3\<rparr>) userId
            (playbackState\<lparr>isComplete := Some True, completedAt := Some now\<rparr>))))"

text \<open>The case \<open>PlaybackStopped\<close>: the offset goes through \<open>updateTrackState\<close>.\<close>

definition handle_PlaybackStopped ::
  "string \<Rightarrow> string \<Rightarrow> int option \<Rightarrow> handler_state \<Rightarrow> response \<times> handler_state" where
  "handle_PlaybackStopped userId tok offset hs =
     (let (now, svc1) = new_Date (persistence hs);
          svc2 = snd (updateTrackState svc1 userId tok
                        (\<lambda>s. s\<lparr>offsetInMilliseconds := offset, pausedAt := Some now\<rparr>))
      in (EmptyResponse,
          hs\<lparr>persistence := svc2,
             session := (case session hs of
                           None \<Rightarrow> None
                         | Some cp \<Rightarrow> Some (cp\<lparr>offsetInMilliseconds := offset\<rparr>))\<rparr>))"

text \<open>The case \<open>PlaybackFailed\<close>.\<close>

definition handle_PlaybackFailed ::
  "string \<Rightarrow> string option \<Rightarrow> string option \<Rightarrow> snapshot \<Rightarrow> handler_state
     \<Rightarrow> response \<times> handler_state" where
  "handle_PlaybackFailed userId errType errMessage playbackState hs =
     (let (now, svc1) = new_Date (persistence hs) in
      (EmptyResponse,
       save_quietly (hs\<lparr>persistence := svc1\<rparr>) userId
         (playbackState\<lparr>snap_error := errMessage, errorType := errType,
                         errorTimestamp := Some now\<rparr>)))"

text \<open>
  \<open>AudioPlayerEventHandler.handle\<close>. The latest snapshot is read first; when the read
  fails or finds nothing, \<open>sessionAttributes.currentlyPlaying || {}\<close> stands in.
\<close>

definition AudioPlayerEventHandler_handle ::
  "(string \<Rightarrow> string \<Rightarrow> string \<Rightarrow> js_error + string) \<Rightarrow> AudioPlayerRequest \<Rightarrow> handler_state
     \<Rightarrow> response outcome \<times> handler_state" where
  "AudioPlayerEventHandler_handle getStreamUrl req hs =
     (let userId = req_userId req;
          (stored, svc1) =
            (case getLatestPlaybackState (persistence hs) userId of
               (Inl err, s) \<Rightarrow> (None, s)
             | (Inr r, s) \<Rightarrow> (r, s));
          playbackState =
            (case stored of
               Some st \<Rightarrow> st
             | None \<Rightarrow> (case session hs of Some cp \<Rightarrow> cp | None \<Rightarrow> empty_snapshot));
          hs1 = hs\<lparr>persistence := svc1\<rparr>
      in
      if eventName req = ''PlaybackFinished'' then
        (case handle_PlaybackFinished getStreamUrl userId (req_accessToken req) playbackState hs1 of
           (resp, hs2) \<Rightarrow> (Returned resp, hs2))
      else if eventName req = ''PlaybackStopped'' then
        (case handle_PlaybackStopped userId (req_token req) (req_offsetInMilliseconds req) hs1 of
           (resp, hs2) \<Rightarrow> (Returned resp, hs2))
      else if eventName req = ''PlaybackFailed'' then
        (case req_error req of
           None \<Rightarrow> (Thrown (TypeError ''Cannot read properties of undefined''), hs1)
         | Some (errType, errMessage) \<Rightarrow>
             (case handle_PlaybackFailed userId errType errMessage playbackState hs1 of
                (resp, hs2) \<Rightarrow> (Returned resp, hs2)))
      else (Returned EmptyResponse, hs1))"

text \<open>
  The clock is ahead of the table for a user: no reading of the clock is earlier than
  a timestamp stored for the user, and later readings are not earlier than former ones.
\<close>

definition clock_ahead :: "PlaybackPersistenceService \<Rightarrow> string \<Rightarrow> bool" where
  "clock_ahead svc userId =
     ((\<forall>i \<in> set (items (playbackDb svc)). \<forall>n. pb_userId i = userId \<longrightarrow> pb_timestamp i \<le> clock svc n) \<and>
      (\<forall>m n. m \<le> n \<longrightarrow> clock svc m \<le> clock svc n))"

text \<open>The service after a \<open>savePlaybackState\<close> that the store accepted.\<close>

definition after_save ::
  "PlaybackPersistenceService \<Rightarrow> string \<Rightarrow> snapshot \<Rightarrow> PlaybackPersistenceService" where
  "after_save svc userId st =
     svc\<lparr>ticks := ticks svc + 1,
         playbackDb := (playbackDb svc)
           \<lparr>items :=
              \<lparr>pb_userId = userId, pb_timestamp = clock svc (ticks svc), pb_state = st,
               pb_ttl = clock svc (ticks svc) div 1000 + PLAYBACK_TTL_SECONDS,
               pb_createdAt = clock svc (ticks svc)\<rparr>
              # filter (\<lambda>i. playback_key i \<noteq> (userId, clock svc (ticks svc)))
                  (items (playbackDb svc))\<rparr>\<rparr>"

text \<open>One reading of the clock that is not stored.\<close>

definition tick :: "PlaybackPersistenceService \<Rightarrow> PlaybackPersistenceService" where
  "tick svc = svc\<lparr>ticks := ticks svc + 1\<rparr>"

section \<open>Example inputs\<close>

definition default_config :: CacheConfig where
  "default_config = \<lparr>cfg_enabled = None, cfg_defaultTTL = None, cfg_maxSize = None\<rparr>"

definition demo_cache :: "nat CacheService" where
  "demo_cache = snd (cache_set (new_CacheService default_config) 0 ''tidal'' ''k'' 42 (Some 1))"

definition tiny_config :: CacheConfig where
  "tiny_config = \<lparr>cfg_enabled = None, cfg_defaultTTL = None, cfg_maxSize = Some 1\<rparr>"

definition demo_client :: TidalApiClient where
  "demo_client = \<lparr>maxRetries = 3, baseDelayMs = 1000, maxDelayMs = 10000\<rparr>"

definition always_503 :: "nat \<Rightarrow> js_error + string" where
  "always_503 n = Inl (HttpError (Some 503) ''Service Unavailable'')"

definition always_404 :: "nat \<Rightarrow> js_error + string" where
  "always_404 n = Inl (HttpError (Some 404) ''Not Found'')"

definition demo_item :: token_item where
  "demo_item = \<lparr>tk_userId = ''u1'', tk_accessToken = ''T1'', tk_refreshToken = ''R1'',
                 tk_expiresAt = 3600000, tk_createdAt = 0, tk_updatedAt = 0\<rparr>"

definition throttled :: aws_error where
  "throttled = \<lparr>err_code = ''ProvisionedThroughputExceededException'', err_message = ''throttled''\<rparr>"

text \<open>A token store that holds the pair \<open>(u1, T1)\<close>, with a script for the SDK.\<close>

definition demo_tokens :: "aws_error option list \<Rightarrow> TokenPersistenceService" where
  "demo_tokens script =
     \<lparr>dynamoDb = \<lparr>items = [demo_item], pending = script\<rparr>,
      cacheEnabled = True, cacheMaxSize = Some 1000, tokenCache = []\<rparr>"


definition unauthorized :: js_error where
  "unauthorized = HttpError (Some 401) ''Unauthorized''"

text \<open>An API call that fails with a 401 first and would succeed when invoked again.\<close>

definition demo_call :: "string ApiCall" where
  "demo_call =
     \<lparr>invoke = (\<lambda>n. if n = 0 then Inl unauthorized else Inr ''profile''),
      source_text = ''() => tidalApi.get(path, {}, accessToken)''\<rparr>"

definition demo_new_tokens :: token_response where
  "demo_new_tokens = \<lparr>access_token = ''T2'', refresh_token = ''R2'', expires_in = Some 3600\<rparr>"

text \<open>A token endpoint that answers the first request with a new pair.\<close>

definition demo_exchange :: "string \<Rightarrow> js_error + token_response" where
  "demo_exchange = refreshAccessToken demo_client (\<lambda>rt n. Inr demo_new_tokens) (\<lambda>n. 0)"

text \<open>A playlist of four tracks, and a store that holds one snapshot of the user \<open>u1\<close>.\<close>

definition demo_tracks :: "track list" where
  "demo_tracks =
     [\<lparr>track_id = ''tr1'', track_title = Some ''One'', track_artist = Some ''A''\<rparr>,
      \<lparr>track_id = ''tr2'', track_title = Some ''Two'', track_artist = Some ''A''\<rparr>,
      \<lparr>track_id = ''tr3'', track_title = Some ''Three'', track_artist = Some ''A''\<rparr>,
      \<lparr>track_id = ''tr4'', track_title = Some ''Four'', track_artist = Some ''A''\<rparr>]"

definition demo_state :: "int \<Rightarrow> string \<Rightarrow> snapshot" where
  "demo_state i tok =
     empty_snapshot\<lparr>snap_type := Some ''playlist'', trackList := Some demo_tracks,
                    currentIndex := Some i, snap_token := Some tok\<rparr>"

definition demo_service :: "snapshot \<Rightarrow> PlaybackPersistenceService" where
  "demo_service st =
     \<lparr>playbackDb =
        \<lparr>items = [\<lparr>pb_userId = ''u1'', pb_timestamp = 1000, pb_state = st,
                    pb_ttl = 86401, pb_createdAt = 1000\<rparr>],
         pending = []\<rparr>,
      clock = (\<lambda>n. 5000 + int n), ticks = 0\<rparr>"

definition demo_handler_state :: "snapshot \<Rightarrow> handler_state" where
  "demo_handler_state st = \<lparr>persistence = demo_service st, session = None\<rparr>"

definition demo_stream :: "string \<Rightarrow> string \<Rightarrow> string \<Rightarrow> js_error + string" where
  "demo_stream acc tid uid = Inr (''https://stream/'' @ tid)"

definition demo_request :: "string \<Rightarrow> string option \<Rightarrow> string \<Rightarrow> AudioPlayerRequest" where
  "demo_request ev acc tok =
     \<lparr>eventName = ev, req_userId = ''u1'', req_accessToken = acc, req_token = tok,
      req_offsetInMilliseconds = Some 42000, req_error = None\<rparr>"

section \<open>Properties of the cache\<close>

lemma Map_get_set_same: "Map_get (Map_set k v m) k = Some v"
  by (induction m) (auto simp: Map_get_def)

lemma Map_get_set_other: "k' \<noteq> k \<Longrightarrow> Map_get (Map_set k v m) k' = Map_get m k'"
  by (induction m) (auto simp: Map_get_def)

lemma Map_get_delete_same: "Map_get (Map_delete k m) k = None"
  by (induction m) (auto simp: Map_get_def)

lemma Map_get_delete_other: "k' \<noteq> k \<Longrightarrow> Map_get (Map_delete k m) k' = Map_get m k'"
  by (induction m) (auto simp: Map_get_def)

lemmas cache_eval =
  cache_set_def cache_get_def new_CacheService_def getCache_def Map_get_def num_or_def
  store_cache_def namespace_of_def new_CacheEntry_def evictOne_def isExpired_def hit_def
  default_config_def tiny_config_def

text \<open>A disabled cache stores nothing and answers every \<open>get\<close> with \<open>undefined\<close>.\<close>

lemma cache_disabled:
  "\<not> enabled s \<Longrightarrow> cache_set s now ns key v ttl = (v, s) \<and> cache_get s now ns key = (None, s)"
  by (simp add: cache_set_def cache_get_def)

text \<open>
  Claim C5 (cache TTL). An entry \<open>e\<close> is stored under \<open>(ns, key)\<close>; \<open>get\<close> is called at a
  time \<open>now\<close> strictly after \<open>expiresAt e\<close>. No sweep is involved: the state \<open>s\<close> is
  arbitrary. Then \<open>get\<close> returns \<open>undefined\<close>, the entry is gone from its namespace
  afterwards, and the counters \<open>expired\<close> and \<open>misses\<close> have each grown by one.
  (Entries exist in an enabled cache only, see \<open>cache_disabled\<close>.)
\<close>

theorem C5_get_after_expiry:
  assumes "enabled s"
    and "Map_get (caches s) ns = Some c" and "Map_get c key = Some e"
    and "expiresAt e < now"
  shows "fst (cache_get s now ns key) = None \<and>
         Map_get (namespace_of (snd (cache_get s now ns key)) ns) key = None \<and>
         stat_expired (stats (snd (cache_get s now ns key))) = stat_expired (stats s) + 1 \<and>
         stat_misses (stats (snd (cache_get s now ns key))) = stat_misses (stats s) + 1"
  using assms
  by (simp add: cache_get_def getCache_def isExpired_def namespace_of_def store_cache_def
      Map_get_set_same Map_get_delete_same)

theorem C5_get_after_expiry_witness:
  "fst (cache_get demo_cache 1001 ''tidal'' ''k'') = None \<and>
   Map_get (namespace_of (snd (cache_get demo_cache 1001 ''tidal'' ''k'')) ''tidal'') ''k'' = None \<and>
   stat_expired (stats (snd (cache_get demo_cache 1001 ''tidal'' ''k''))) = 1 \<and>
   stat_misses (stats (snd (cache_get demo_cache 1001 ''tidal'' ''k''))) = 1"
proof -
  have h1: "enabled demo_cache" by (simp add: demo_cache_def cache_eval)
  have h2: "Map_get (caches demo_cache) ''tidal'' = Some [(''k'', new_CacheEntry 0 42 1)]"
    by (simp add: demo_cache_def cache_eval)
  have h3: "Map_get [(''k'', new_CacheEntry 0 (42::nat) 1)] ''k'' = Some (new_CacheEntry 0 42 1)"
    by (simp add: Map_get_def)
  have h4: "expiresAt (new_CacheEntry 0 (42::nat) 1) < 1001" by (simp add: new_CacheEntry_def)
  have st: "stat_expired (stats demo_cache) = 0 \<and> stat_misses (stats demo_cache) = 0"
    by (simp add: demo_cache_def cache_eval)
  show ?thesis using C5_get_after_expiry [OF h1 h2 h3 h4] st by simp
qed

text \<open>
  The size bound of a namespace. \<open>Map.set\<close> adds at most one entry, \<open>Map.delete\<close> of a
  key that is present removes one, and the scan of \<open>_evictOne\<close> selects an entry of the
  namespace with the smallest \<open>createdAt\<close> whenever the namespace is not empty.
\<close>

lemma length_Map_set: "length (Map_set k v m) \<le> length m + 1"
  by (induction m) auto

lemma length_Map_delete_less: "k \<in> fst ` set m \<Longrightarrow> length (Map_delete k m) < length m"
proof (induction m)
  case Nil
  then show ?case by simp
next
  case (Cons p m)
  have le: "length (Map_delete k m) \<le> length m" by (induction m) auto
  show ?case
  proof (cases "fst p = k")
    case True
    with le show ?thesis by (cases p) auto
  next
    case False
    with Cons show ?thesis by (cases p) auto
  qed
qed

lemma oldest_scan_cases:
  "oldest_scan c acc = acc \<or> (\<exists>x \<in> set c. oldest_scan c acc = Some x)"
proof (induction c arbitrary: acc)
  case Nil
  then show ?case by simp
next
  case (Cons p c)
  obtain k e where p: "p = (k, e)" by (cases p)
  let ?acc' = "case acc of None \<Rightarrow> Some (k, e)
               | Some (ok, oe) \<Rightarrow> if createdAt e < createdAt oe then Some (k, e) else acc"
  have step: "oldest_scan (p # c) acc = oldest_scan c ?acc'" by (simp add: p)
  have acc': "?acc' = acc \<or> ?acc' = Some (k, e)" by (auto split: option.splits)
  from Cons.IH [of ?acc'] acc' show ?case unfolding step by (auto simp: p)
qed

lemma oldest_scan_nonempty: "c \<noteq> [] \<Longrightarrow> \<exists>x \<in> set c. oldest_scan c None = Some x"
proof (cases c)
  case Nil
  then show "c \<noteq> [] \<Longrightarrow> ?thesis" by simp
next
  case (Cons p c')
  obtain k e where p: "p = (k, e)" by (cases p)
  have "oldest_scan c None = oldest_scan c' (Some (k, e))" by (simp add: Cons p)
  with oldest_scan_cases [of c' "Some (k, e)"] show ?thesis by (auto simp: Cons p)
qed

lemma oldest_scan_least:
  "oldest_scan c acc = Some (k, e) \<Longrightarrow>
   (\<forall>(k', e') \<in> set c. createdAt e \<le> createdAt e') \<and>
   (\<forall>ok oe. acc = Some (ok, oe) \<longrightarrow> createdAt e \<le> createdAt oe)"
proof (induction c arbitrary: acc)
  case Nil
  then show ?case by simp
next
  case (Cons p c)
  obtain k1 e1 where p: "p = (k1, e1)" by (cases p)
  let ?acc' = "case acc of None \<Rightarrow> Some (k1, e1)
               | Some (ok, oe) \<Rightarrow> if createdAt e1 < createdAt oe then Some (k1, e1) else acc"
  have step: "oldest_scan (p # c) acc = oldest_scan c ?acc'" by (simp add: p)
  from Cons.prems step have "oldest_scan c ?acc' = Some (k, e)" by simp
  from Cons.IH [OF this]
  have ih: "\<forall>(k', e') \<in> set c. createdAt e \<le> createdAt e'"
    "\<forall>ok oe. ?acc' = Some (ok, oe) \<longrightarrow> createdAt e \<le> createdAt oe" by auto
  have "createdAt e \<le> createdAt e1" using ih(2) by (auto split: option.splits if_splits)
  moreover have "\<forall>ok oe. acc = Some (ok, oe) \<longrightarrow> createdAt e \<le> createdAt oe"
    using ih(2) by (auto split: option.splits if_splits)
  ultimately show ?case using ih(1) by (auto simp: p)
qed

text \<open>
  With a positive maximum and no entry under the empty key, a \<open>set\<close> on a namespace within
  the bound leaves it within the bound.
\<close>

lemma cache_set_keeps_bound:
  assumes "0 < maxSize s"
    and "int (length (namespace_of s ns)) \<le> maxSize s"
    and "\<forall>(k, e) \<in> set (namespace_of s ns). k \<noteq> []"
  shows "int (length (namespace_of (snd (cache_set s now ns key v ttl)) ns)) \<le> maxSize s"
proof (cases "enabled s")
  case False
  then show ?thesis using assms(2) by (simp add: cache_set_def)
next
  case en: True
  let ?c = "namespace_of s ns"
  show ?thesis
  proof (cases "int (length ?c) < maxSize s")
    case True
    then have "int (length (Map_set key e ?c)) \<le> maxSize s" for e
      using length_Map_set [of key e ?c] by simp
    with en True show ?thesis
      by (auto simp: cache_set_def getCache_def namespace_of_def store_cache_def Let_def
          Map_get_set_same split: option.splits)
  next
    case False
    with assms(1) have ne: "?c \<noteq> []" by auto
    from oldest_scan_nonempty [OF ne] obtain ok oe where
      o: "(ok, oe) \<in> set ?c" "oldest_scan ?c None = Some (ok, oe)" by auto
    from o(1) assms(3) have truthy: "ok \<noteq> []" by auto
    from o(1) have "ok \<in> fst ` set ?c" by force
    from length_Map_delete_less [OF this] assms(2)
    have less: "int (length (Map_delete ok ?c)) < maxSize s" by simp
    then have "int (length (Map_set key e (Map_delete ok ?c))) \<le> maxSize s" for e
      using length_Map_set [of key e "Map_delete ok ?c"] by simp
    with en False o(2) truthy ne show ?thesis
      by (auto simp: cache_set_def evictOne_def getCache_def namespace_of_def store_cache_def
          Let_def Map_get_set_same split: option.splits)
  qed
qed

text \<open>
  Claim C6 (cache bound), at the failing input. The maximum is 1; the namespace holds one
  entry, stored under the empty key. A \<open>set\<close> of a second key finds the namespace full and
  calls \<open>_evictOne\<close>, whose scan selects the entry under \<open>""\<close>; the guard
  \<open>if (oldestKey)\<close> reads the empty string as "nothing found" and deletes nothing. The
  namespace then holds two entries and no eviction was counted.
\<close>

theorem C6_empty_key_exceeds_bound:
  "maxSize (new_CacheService tiny_config :: nat CacheService) = 1 \<and>
   length (namespace_of
     (snd (cache_set (snd (cache_set (new_CacheService tiny_config) 0 ''tidal'' '''' (1::nat) None))
        5 ''tidal'' ''a'' 2 None)) ''tidal'') = 2 \<and>
   stat_evictions (stats
     (snd (cache_set (snd (cache_set (new_CacheService tiny_config) 0 ''tidal'' '''' (1::nat) None))
        5 ''tidal'' ''a'' 2 None))) = 0"
  by (simp add: cache_eval)

section \<open>Properties of the retrying client\<close>

lemma retryable_not_no_retry: "retryable e \<Longrightarrow> \<not> no_retry e"
  by (auto simp: retryable_def no_retry_def split: option.splits)

text \<open>
  The loop started at \<open>a\<close>, when every attempt before \<open>n\<close> fails with a retryable
  error and attempt \<open>n\<close> fails with an error that ends the loop.
\<close>

lemma retry_loop_stops:
  assumes "a \<le> n" and "int n < retries"
    and "\<forall>i. a \<le> i \<and> i < n \<longrightarrow> (\<exists>e'. transport i = Inl e' \<and> retryable e')"
    and "transport n = Inl e"
    and "no_retry e \<or> int n = retries - 1"
  shows "retry_loop cl transport random retries a atts lastError ds =
           \<lparr>outcome = Thrown e, attempts = atts + (n - a) + 1,
            delays = ds @ map (delay_of cl random) [a..<n]\<rparr>"
  using assms
proof (induction "n - a" arbitrary: a atts lastError ds)
  case 0
  then have "a = n" by simp
  with 0 show ?case
    by (subst retry_loop.simps) (auto simp: throw_last_def)
next
  case (Suc k)
  then have lt: "a < n" by simp
  with Suc.prems obtain e' where e': "transport a = Inl e'" "retryable e'" by auto
  have nl: "int a \<noteq> retries - 1" using lt Suc.prems(2) by simp
  have step: "retry_loop cl transport random retries a atts lastError ds =
        retry_loop cl transport random retries (a + 1) (atts + 1) (Some e')
          (ds @ [delay_of cl random a])"
    using lt Suc.prems(2) e' nl
    by (subst retry_loop.simps) (simp add: retryable_not_no_retry delay_of_def Let_def)
  have "retry_loop cl transport random retries (a + 1) (atts + 1) (Some e')
          (ds @ [delay_of cl random a]) =
        \<lparr>outcome = Thrown e, attempts = (atts + 1) + (n - (a + 1)) + 1,
         delays = (ds @ [delay_of cl random a]) @ map (delay_of cl random) [a + 1..<n]\<rparr>"
    using Suc.hyps Suc.prems lt by (intro Suc.hyps(1)) auto
  with step lt show ?case by (simp add: upt_conv_Cons)
qed

text \<open>
  Every run: \<open>k\<close> attempts are made and the delays are those of the attempts
  \<open>a, \<dots>, a + k - 2\<close>, one between two consecutive attempts.
\<close>

lemma retry_loop_delays:
  "\<exists>k. attempts (retry_loop cl transport random retries a atts lastError ds) = atts + k \<and>
       (int a < retries \<longrightarrow> 1 \<le> k) \<and>
       delays (retry_loop cl transport random retries a atts lastError ds) =
         ds @ map (delay_of cl random) [a..<a + (k - 1)]"
proof (induction cl transport random retries a atts lastError ds rule: retry_loop.induct)
  case (1 cl transport random retries attempt atts lastError ds)
  show ?case
  proof (cases "int attempt < retries")
    case False
    then show ?thesis by (subst (1 2) retry_loop.simps) simp
  next
    case lt: True
    show ?thesis
    proof (cases "transport attempt")
      case (Inr resp)
      with lt show ?thesis
        by (subst (1 2) retry_loop.simps) (auto intro!: exI [of _ 1])
    next
      case (Inl err)
      show ?thesis
      proof (cases "no_retry err \<or> int attempt = retries - 1")
        case True
        with lt Inl show ?thesis
          by (subst (1 2) retry_loop.simps) (auto intro!: exI [of _ 1])
      next
        case False
        let ?r = "retry_loop cl transport random retries (attempt + 1) (atts + 1) (Some err)
                    (ds @ [delay_of cl random attempt])"
        have step: "retry_loop cl transport random retries attempt atts lastError ds = ?r"
          using lt Inl False
          by (subst retry_loop.simps) (simp add: delay_of_def Let_def)
        have next_lt: "int (attempt + 1) < retries" using lt False by simp
        from "1.IH" [OF lt Inl _ _ refl refl refl] False
        obtain k where k: "attempts ?r = (atts + 1) + k" "int (attempt + 1) < retries \<longrightarrow> 1 \<le> k"
          "delays ?r = (ds @ [delay_of cl random attempt]) @
              map (delay_of cl random) [attempt + 1..<attempt + 1 + (k - 1)]"
          by (auto simp: delay_of_def)
        from k next_lt have k1: "1 \<le> k" by simp
        have "attempts ?r = atts + (k + 1)" using k by simp
        moreover have "delays ?r = ds @ map (delay_of cl random) [attempt..<attempt + ((k + 1) - 1)]"
          using k(3) k1 by (simp add: upt_conv_Cons)
        ultimately show ?thesis unfolding step using lt by (intro exI [of _ "k + 1"]) simp
      qed
    qed
  qed
qed

lemma demo_run_503:
  "requestWithRetry demo_client always_503 (\<lambda>n. 1 / 2) None =
     \<lparr>outcome = Thrown (HttpError (Some 503) ''Service Unavailable''), attempts = 3,
      delays = [1100, 2200]\<rparr>"
  unfolding requestWithRetry_def
  apply (subst retry_loop.simps, simp add: demo_client_def always_503_def no_retry_def backoff_def Let_def)
  apply (subst retry_loop.simps, simp add: demo_client_def always_503_def no_retry_def backoff_def Let_def)
  apply (subst retry_loop.simps, simp add: demo_client_def always_503_def no_retry_def throw_last_def)
  done

text \<open>A 404 on the first attempt: one attempt, no delay, the error thrown as it is.\<close>

lemma not_found_is_not_retried:
  "requestWithRetry demo_client always_404 random None =
     \<lparr>outcome = Thrown (HttpError (Some 404) ''Not Found''), attempts = 1, delays = []\<rparr>"
  unfolding requestWithRetry_def
  by (subst retry_loop.simps)
     (simp add: demo_client_def always_404_def no_retry_def throw_last_def)

text \<open>
  Claim C3 (retry classification). \<open>retries\<close> is the number of attempts allowed (the
  option \<open>retries\<close>, \<open>maxRetries\<close> by default). Attempt \<open>n\<close> is within this number and
  fails with the error \<open>e\<close>; every attempt before it failed with a retryable error
  (429, 5xx, or no response), so that attempt \<open>n\<close> is reached. If the status of \<open>e\<close> is
  400, 401, 403 or 404, or if \<open>n\<close> is the last attempt allowed, then exactly \<open>n + 1\<close>
  attempts are made and \<open>e\<close> itself is thrown. With \<open>n = 0\<close> and a 404: one attempt, no
  retry. With \<open>n = retries - 1\<close>: \<open>retries\<close> attempts, the last error thrown unchanged.
\<close>

theorem C3_retry_classification:
  assumes "retries = (case ro of None \<Rightarrow> maxRetries cl | Some r \<Rightarrow> r)"
    and "int n < retries"
    and "\<forall>i<n. \<exists>e'. transport i = Inl e' \<and> retryable e'"
    and "transport n = Inl e"
    and "response_status e \<in> {Some 400, Some 401, Some 403, Some 404} \<or> int n = retries - 1"
  shows "outcome (requestWithRetry cl transport random ro) = Thrown e \<and>
         attempts (requestWithRetry cl transport random ro) = n + 1"
proof -
  have stop: "no_retry e \<or> int n = retries - 1"
    using assms(5) by (auto simp: no_retry_def)
  have "retry_loop cl transport random retries 0 0 None [] =
          \<lparr>outcome = Thrown e, attempts = 0 + (n - 0) + 1,
           delays = [] @ map (delay_of cl random) [0..<n]\<rparr>"
    using assms(2-4) stop by (intro retry_loop_stops) auto
  then show ?thesis
    using assms(1) by (simp add: requestWithRetry_def)
qed

theorem C3_retry_classification_witness:
  "outcome (requestWithRetry demo_client always_503 (\<lambda>n. 1 / 2) None)
     = Thrown (HttpError (Some 503) ''Service Unavailable'') \<and>
   attempts (requestWithRetry demo_client always_503 (\<lambda>n. 1 / 2) None) = 3"
proof -
  have h1: "(3::int) = (case None of None \<Rightarrow> maxRetries demo_client | Some r \<Rightarrow> r)"
    by (simp add: demo_client_def)
  have h2: "int 2 < 3" by simp
  have h3: "\<forall>i<2. \<exists>e'. always_503 i = Inl e' \<and> retryable e'"
    by (simp add: always_503_def retryable_def)
  have h4: "always_503 2 = Inl (HttpError (Some 503) ''Service Unavailable'')"
    by (simp add: always_503_def)
  have h5: "response_status (HttpError (Some 503) ''Service Unavailable'')
              \<in> {Some 400, Some 401, Some 403, Some 404} \<or> int 2 = 3 - 1"
    by simp
  show ?thesis
    using C3_retry_classification [OF h1 h2 h3 h4 h5, of "\<lambda>n. 1 / 2"] by simp
qed

text \<open>
  Claim C4 (backoff schedule). Attempt \<open>n\<close> (counted from 0) is followed by another
  attempt. \<open>random n\<close> is the value \<open>Math.random()\<close> returned in iteration \<open>n\<close>, a number
  in \<open>[0, 1)\<close>; the configured delays are not negative. Then the delay waited after
  attempt \<open>n\<close> is \<open>d + jitter\<close> with \<open>d = min(maxDelayMs, baseDelayMs * 2^n)\<close> and
  \<open>jitter = random n * (0.2 * d)\<close>, which lies in \<open>[0, 0.2 * d]\<close>. The number of delays
  is the number of attempts minus one: none is waited after the final attempt.
\<close>

theorem C4_backoff_schedule:
  assumes "n + 1 < attempts (requestWithRetry cl transport random ro)"
    and "0 \<le> random n" and "random n < 1"
    and "0 \<le> baseDelayMs cl" and "0 \<le> maxDelayMs cl"
  shows "delays (requestWithRetry cl transport random ro) ! n =
           min (maxDelayMs cl) (baseDelayMs cl * 2 ^ n)
             + random n * (0.2 * min (maxDelayMs cl) (baseDelayMs cl * 2 ^ n)) \<and>
         0 \<le> random n * (0.2 * min (maxDelayMs cl) (baseDelayMs cl * 2 ^ n)) \<and>
         random n * (0.2 * min (maxDelayMs cl) (baseDelayMs cl * 2 ^ n))
           \<le> 0.2 * min (maxDelayMs cl) (baseDelayMs cl * 2 ^ n) \<and>
         length (delays (requestWithRetry cl transport random ro))
           = attempts (requestWithRetry cl transport random ro) - 1"
proof -
  let ?r = "requestWithRetry cl transport random ro"
  let ?d = "min (maxDelayMs cl) (baseDelayMs cl * 2 ^ n)"
  obtain k where k: "attempts ?r = k" "delays ?r = map (delay_of cl random) [0..<k - 1]"
    using retry_loop_delays [of cl transport random _ 0 0 None "[]"]
    by (auto simp: requestWithRetry_def)
  from k assms(1) have n: "n < k - 1" by simp
  have d0: "0 \<le> ?d" using assms(4,5) by simp
  have "delays ?r ! n = delay_of cl random n" using k n by simp
  also have "\<dots> = ?d + random n * (0.2 * ?d)"
    by (simp add: delay_of_def backoff_def mult.commute)
  finally have a: "delays ?r ! n = ?d + random n * (0.2 * ?d)" .
  have b: "0 \<le> random n * (0.2 * ?d)" using assms(2) d0 by simp
  have "random n * (0.2 * ?d) \<le> 1 * (0.2 * ?d)"
    using assms(3) d0 by (intro mult_right_mono) auto
  then have c: "random n * (0.2 * ?d) \<le> 0.2 * ?d" by simp
  have d: "length (delays ?r) = attempts ?r - 1" using k by simp
  from a b c d show ?thesis by blast
qed

theorem C4_backoff_schedule_witness:
  "delays (requestWithRetry demo_client always_503 (\<lambda>n. 1 / 2) None) ! 1 = 2000 + 200 \<and>
   length (delays (requestWithRetry demo_client always_503 (\<lambda>n. 1 / 2) None)) = 2"
proof -
  have h1: "1 + 1 < attempts (requestWithRetry demo_client always_503 (\<lambda>n. 1 / 2) None)"
    by (simp add: demo_run_503)
  have h2: "(0::real) \<le> (\<lambda>n::nat. 1 / 2) 1" and h3: "(\<lambda>n::nat. 1 / 2) 1 < (1::real)" by simp_all
  have h4: "0 \<le> baseDelayMs demo_client" and h5: "0 \<le> maxDelayMs demo_client"
    by (simp_all add: demo_client_def)
  have "attempts (requestWithRetry demo_client always_503 (\<lambda>n. 1 / 2) None) = 3"
    by (simp add: demo_run_503)
  then show ?thesis
    using C4_backoff_schedule [OF h1 h2 h3 h4 h5] by (simp add: demo_client_def)
qed

section \<open>Properties of the token store\<close>

lemmas store_eval =
  sdk_call_def putItem_def deleteItem_def query_def query_index_def handleError_def
  token_key_def updateCache_def saveTokens_def getTokensByUserId_def
  getRefreshTokenByAccessToken_def deleteTokens_def updateTokens_def stored_pair_def
  Map_get_def Map_has_def

text \<open>
  Claim C9 (token rotation atomicity), as stated, at a concrete input. The store holds
  the pair \<open>(u1, T1)\<close>; the deletion succeeds and the insertion is rejected by the
  store. \<open>updateTokens\<close> throws, and the store is left without the old pair and without
  the new one.
\<close>

theorem C9_not_atomic_counterexample:
  "fst (updateTokens (demo_tokens [None, Some throttled]) 5000 ''u1'' ''T1'' ''T2'' ''R2'' None)
     = Inl (StoreError 429 throttled) \<and>
   stored_pair (demo_tokens [None, Some throttled]) ''u1'' ''T1'' = Some demo_item \<and>
   stored_pair
     (snd (updateTokens (demo_tokens [None, Some throttled]) 5000 ''u1'' ''T1'' ''T2'' ''R2'' None))
     ''u1'' ''T1'' = None \<and>
   stored_pair
     (snd (updateTokens (demo_tokens [None, Some throttled]) 5000 ''u1'' ''T1'' ''T2'' ''R2'' None))
     ''u1'' ''T2'' = None"
  by (simp add: store_eval demo_tokens_def demo_item_def throttled_def)

text \<open>
  Claim C9, amended. \<open>updateTokens\<close> removes the old pair and then inserts the new one,
  as two operations of the store. The old access token is not empty and differs from
  the new one. When \<open>updateTokens\<close> returns, the store holds the new pair with the new
  refresh token and does not hold the old pair. When it throws, the table is either
  unchanged (the removal failed) or it is the table without the old pair (the removal
  succeeded and the insertion failed).
\<close>

theorem C9_updateTokens_two_steps:
  assumes "oldAccessToken \<noteq> []" and "oldAccessToken \<noteq> newAccessToken"
  shows "case updateTokens svc now userId oldAccessToken newAccessToken newRefreshToken expiresIn of
           (Inr saved, svc') \<Rightarrow>
             map_option tk_refreshToken (stored_pair svc' userId newAccessToken)
               = Some newRefreshToken \<and>
             stored_pair svc' userId oldAccessToken = None
         | (Inl error, svc') \<Rightarrow>
             items (dynamoDb svc') = items (dynamoDb svc) \<or>
             items (dynamoDb svc') =
               filter (\<lambda>i. token_key i \<noteq> (userId, oldAccessToken)) (items (dynamoDb svc))"
  using assms
  by (auto simp: updateTokens_def deleteTokens_def saveTokens_def deleteItem_def putItem_def
      sdk_call_def stored_pair_def updateCache_def Let_def find_None_iff token_key_def
      split: list.splits option.splits prod.splits sum.splits if_splits)

theorem C9_updateTokens_two_steps_witness:
  "map_option tk_refreshToken
     (stored_pair (snd (updateTokens (demo_tokens []) 5000 ''u1'' ''T1'' ''T2'' ''R2'' None))
        ''u1'' ''T2'') = Some ''R2'' \<and>
   stored_pair (snd (updateTokens (demo_tokens []) 5000 ''u1'' ''T1'' ''T2'' ''R2'' None))
     ''u1'' ''T1'' = None"
proof -
  have h1: "''T1'' \<noteq> []" and h2: "''T1'' \<noteq> ''T2''" by simp_all
  obtain saved svc' where
    run: "updateTokens (demo_tokens []) 5000 ''u1'' ''T1'' ''T2'' ''R2'' None = (Inr saved, svc')"
    by (simp add: store_eval demo_tokens_def demo_item_def)
  from C9_updateTokens_two_steps [OF h1 h2, where svc = "demo_tokens []" and now = 5000
      and userId = "''u1''" and newRefreshToken = "''R2''" and expiresIn = None]
  show ?thesis unfolding run by simp
qed

section \<open>Properties of the token-refresh coordinator\<close>

lemmas coordinator_eval =
  executeWithTokenRefresh_def refresh_and_retry_def resolveRefreshToken_def truthy_def
  js_replace_def

lemma demo_exchange_ok: "demo_exchange rt = Inr demo_new_tokens"
  unfolding demo_exchange_def refreshAccessToken_def requestWithRetry_def
  by (subst retry_loop.simps) simp

text \<open>Whatever happens, one call of the coordinator invokes \<open>apiCallFn\<close> exactly once.\<close>

lemma executeWithTokenRefresh_invokes_once:
  "invocations (snd (executeWithTokenRefresh exchange clearCache now apiCallFn accessTok userId w))
     = invocations w + 1"
  by (auto simp: executeWithTokenRefresh_def refresh_and_retry_def Let_def
      split: sum.splits prod.splits option.splits)

text \<open>
  Claim C1 (refresh-once), at the failing input. The user \<open>u1\<close> holds the pair
  \<open>(T1, R1)\<close>; the API call fails with a 401 and would succeed on a second invocation;
  the token endpoint answers with the pair \<open>(T2, R2)\<close>; the store and the cache clean-up
  work. The new pair is persisted, but \<open>apiCallFn\<close> has been invoked once, not twice,
  and the coordinator returns the text of \<open>apiCallFn\<close> (unchanged here, since the text
  names the variable, not the token) in place of the result of a second invocation.
\<close>

theorem C1_refresh_does_not_reinvoke:
  "fst (executeWithTokenRefresh demo_exchange (\<lambda>t. None) 5000 demo_call (Some ''T1'') (Some ''u1'')
          \<lparr>tokenPersistenceService = demo_tokens [], invocations = 0\<rparr>)
     = Returned (SourceText ''() => tidalApi.get(path, {}, accessToken)'') \<and>
   invocations
     (snd (executeWithTokenRefresh demo_exchange (\<lambda>t. None) 5000 demo_call (Some ''T1'') (Some ''u1'')
          \<lparr>tokenPersistenceService = demo_tokens [], invocations = 0\<rparr>)) = 1 \<and>
   invoke demo_call 1 = Inr ''profile'' \<and>
   map_option tk_refreshToken
     (stored_pair
        (tokenPersistenceService
          (snd (executeWithTokenRefresh demo_exchange (\<lambda>t. None) 5000 demo_call (Some ''T1'')
                  (Some ''u1'') \<lparr>tokenPersistenceService = demo_tokens [], invocations = 0\<rparr>)))
        ''u1'' ''T2'') = Some ''R2''"
  by (simp add: coordinator_eval store_eval demo_exchange_ok demo_call_def unauthorized_def
      demo_tokens_def demo_item_def demo_new_tokens_def)

theorem C1_refresh_does_not_reinvoke_witness:
  "invocations
     (snd (executeWithTokenRefresh demo_exchange (\<lambda>t. None) 5000 demo_call (Some ''T1'') (Some ''u1'')
          \<lparr>tokenPersistenceService = demo_tokens [], invocations = 0\<rparr>)) = 1"
  using C1_refresh_does_not_reinvoke by blast



section \<open>Properties of the playback session store and of the state machine\<close>

lemma insort_key_greatest:
  "\<forall>y \<in> set ys. f y < f x \<Longrightarrow> insort_key f x ys = ys @ [x]"
  by (induction ys) auto

lemma rev_sort_key_greatest:
  assumes "\<forall>y \<in> set ys. f y < f x"
  shows "rev (sort_key f (x # ys)) = x # rev (sort_key f ys)"
proof -
  have "sort_key f (x # ys) = insort_key f x (sort_key f ys)" by simp
  also have "\<dots> = sort_key f ys @ [x]" using assms by (intro insort_key_greatest) simp
  finally show ?thesis by simp
qed

lemma latest_after_put:
  assumes "\<forall>i \<in> set xs. pb_userId i = u \<longrightarrow> pb_timestamp i \<le> t"
    and "pb_userId item = u" and "pb_timestamp item = t"
  shows "rev (sort_key pb_timestamp (filter (\<lambda>i. pb_userId i = u)
           (item # filter (\<lambda>i. playback_key i \<noteq> playback_key item) xs)))
         = item # rev (sort_key pb_timestamp (filter (\<lambda>i. pb_userId i = u)
             (filter (\<lambda>i. playback_key i \<noteq> playback_key item) xs)))"
proof -
  let ?rest = "filter (\<lambda>i. pb_userId i = u) (filter (\<lambda>i. playback_key i \<noteq> playback_key item) xs)"
  have "\<forall>y \<in> set ?rest. pb_timestamp y < pb_timestamp item"
    using assms by (auto simp: playback_key_def)
  then show ?thesis
    using assms(2) rev_sort_key_greatest [of ?rest pb_timestamp item] by simp
qed

lemma getLatest_no_faults:
  "pending (playbackDb svc) = [] \<Longrightarrow>
   getLatestPlaybackState svc userId = (Inr (latest_snapshot svc userId), svc)"
  by (auto simp: getLatestPlaybackState_def query_def sdk_call_def latest_snapshot_def Let_def
      split: list.splits)

lemma save_no_faults:
  "pending (playbackDb svc) = [] \<Longrightarrow>
   savePlaybackState svc userId st = (Inr st, after_save svc userId st)"
  by (simp add: savePlaybackState_def new_Date_def putItem_def sdk_call_def Let_def
      playback_key_def after_save_def)

lemma after_save_fields [simp]:
  "pending (playbackDb (after_save svc userId st)) = pending (playbackDb svc)"
  "clock (after_save svc userId st) = clock svc"
  "ticks (after_save svc userId st) = ticks svc + 1"
  by (simp_all add: after_save_def)

lemma tick_fields [simp]:
  "playbackDb (tick svc) = playbackDb svc"
  "clock (tick svc) = clock svc"
  "ticks (tick svc) = ticks svc + 1"
  by (simp_all add: tick_def)

lemma new_Date_tick: "new_Date svc = (clock svc (ticks svc), tick svc)"
  by (simp add: new_Date_def tick_def)

lemma latest_tick [simp]: "latest_snapshot (tick svc) userId = latest_snapshot svc userId"
  by (simp add: latest_snapshot_def)

lemma latest_after_save:
  assumes "\<forall>i \<in> set (items (playbackDb svc)). pb_userId i = userId \<longrightarrow> pb_timestamp i \<le> clock svc (ticks svc)"
  shows "latest_snapshot (after_save svc userId st) userId = Some st"
proof -
  let ?item = "\<lparr>pb_userId = userId, pb_timestamp = clock svc (ticks svc), pb_state = st,
                pb_ttl = clock svc (ticks svc) div 1000 + PLAYBACK_TTL_SECONDS,
                pb_createdAt = clock svc (ticks svc)\<rparr>"
  have k: "playback_key ?item = (userId, clock svc (ticks svc))" by (simp add: playback_key_def)
  show ?thesis
    using latest_after_put [OF assms, of ?item] k
    by (simp add: after_save_def latest_snapshot_def)
qed

lemma items_after_save:
  assumes "\<forall>i \<in> set (items (playbackDb svc)). pb_userId i = userId \<longrightarrow> pb_timestamp i \<le> T"
    and "clock svc (ticks svc) \<le> T"
  shows "\<forall>i \<in> set (items (playbackDb (after_save svc userId st))).
           pb_userId i = userId \<longrightarrow> pb_timestamp i \<le> T"
  using assms by (auto simp: after_save_def)

lemma getPlaylist_no_faults:
  assumes "pending (playbackDb svc) = []" and "latest_snapshot svc userId = Some st"
  shows "getPlaylist svc userId =
           (Inr (if snap_type st \<noteq> Some ''playlist'' then None
                 else Some \<lparr>pl_trackList = (case trackList st of None \<Rightarrow> [] | Some ts \<Rightarrow> ts),
                            pl_currentIndex = (case currentIndex st of None \<Rightarrow> 0 | Some i \<Rightarrow> i)\<rparr>),
            svc)"
  using assms by (simp add: getPlaylist_def getLatest_no_faults)

lemma updateTrackState_stale:
  assumes "pending (playbackDb svc) = []" and "latest_snapshot svc userId = Some cur"
    and "snap_token cur \<noteq> Some tok"
  shows "updateTrackState svc userId tok updates =
           (Inr (Some ((updates empty_snapshot)\<lparr>snap_token := Some tok, updatedAt := Some (clock svc (ticks svc))\<rparr>)),
            after_save (tick svc) userId
              ((updates empty_snapshot)\<lparr>snap_token := Some tok, updatedAt := Some (clock svc (ticks svc))\<rparr>))"
  using assms
  by (simp add: updateTrackState_def getLatest_no_faults new_Date_tick save_no_faults)

lemma updatePlaylistIndex_no_faults:
  assumes "pending (playbackDb svc) = []" and "latest_snapshot svc userId = Some st"
    and "snap_type st = Some ''playlist''" and "trackList st = Some ts"
    and "0 \<le> n" and "n < int (length ts)"
  shows "updatePlaylistIndex svc userId n =
           (Inr (Some \<lparr>pl_trackList = ts, pl_currentIndex = n\<rparr>),
            after_save (tick svc) userId
              (empty_snapshot\<lparr>snap_type := Some ''playlist'', trackList := Some ts,
                 currentIndex := Some n, updatedAt := Some (clock svc (ticks svc))\<rparr>))"
  using assms
  by (simp add: updatePlaylistIndex_def getPlaylist_no_faults new_Date_tick save_no_faults Let_def)

lemma finished_no_token:
  assumes "pending (playbackDb (persistence hs)) = []"
    and "latest_snapshot (persistence hs) (req_userId req) = Some st"
    and "eventName req = ''PlaybackFinished''"
    and "snap_type st = Some ''playlist''" and "trackList st = Some ts" and "currentIndex st = Some i"
    and "i < int (length ts) - 1"
    and "\<not> truthy (req_accessToken req)"
  shows "AudioPlayerEventHandler_handle getStreamUrl req hs = (Returned EmptyResponse, hs)"
  using assms
  by (simp add: AudioPlayerEventHandler_handle_def handle_PlaybackFinished_def
      getLatest_no_faults getPlaylist_no_faults)

lemma finished_complete:
  assumes "pending (playbackDb (persistence hs)) = []"
    and "latest_snapshot (persistence hs) (req_userId req) = Some st"
    and "eventName req = ''PlaybackFinished''"
    and "snap_type st = Some ''playlist''" and "trackList st = Some ts" and "currentIndex st = Some i"
    and "\<not> i < int (length ts) - 1"
  shows "AudioPlayerEventHandler_handle getStreamUrl req hs =
           (Returned EmptyResponse,
            hs\<lparr>persistence :=
                 after_save (tick (persistence hs)) (req_userId req)
                   (st\<lparr>isComplete := Some True,
                       completedAt := Some (clock (persistence hs) (ticks (persistence hs)))\<rparr>)\<rparr>)"
  using assms
  by (simp add: AudioPlayerEventHandler_handle_def handle_PlaybackFinished_def save_quietly_def
      getLatest_no_faults getPlaylist_no_faults new_Date_tick save_no_faults)

lemma finished_advance:
  assumes nf: "pending (playbackDb (persistence hs)) = []"
    and latest: "latest_snapshot (persistence hs) (req_userId req) = Some st"
    and ev: "eventName req = ''PlaybackFinished''"
    and st: "snap_type st = Some ''playlist''" "trackList st = Some ts" "currentIndex st = Some i"
    and range: "0 \<le> i" "i < int (length ts) - 1"
    and acc: "req_accessToken req = Some acc" "acc \<noteq> []"
    and url: "getStreamUrl acc (track_id (ts ! nat (i + 1))) (req_userId req) = Inr url"
  shows "AudioPlayerEventHandler_handle getStreamUrl req hs =
           (Returned (PlayDirective url (track_id (ts ! nat (i + 1))) 0 (i + 1) ts),
            hs\<lparr>persistence :=
                 after_save
                   (after_save (tick (persistence hs)) (req_userId req)
                      (empty_snapshot\<lparr>snap_type := Some ''playlist'', trackList := Some ts,
                         currentIndex := Some (i + 1),
                         updatedAt := Some (clock (persistence hs) (ticks (persistence hs)))\<rparr>))
                   (req_userId req)
                   (empty_snapshot
                      \<lparr>snap_type := Some ''playlist'',
                       trackId := Some (track_id (ts ! nat (i + 1))),
                       snap_title := track_title (ts ! nat (i + 1)),
                       snap_artist := track_artist (ts ! nat (i + 1)),
                       offsetInMilliseconds := Some 0,
                       snap_token := Some (track_id (ts ! nat (i + 1))),
                       currentIndex := Some (i + 1),
                       snap_url := Some url,
                       playlistId := playlistId st,
                       playlistName := playlistName st,
                       albumId := albumId st,
                       albumName := albumName st,
                       artistId := artistId st,
                       artistName := artistName st\<rparr>),
               session :=
                 (case session hs of
                    None \<Rightarrow> None
                  | Some cp \<Rightarrow>
                      Some (cp\<lparr>currentIndex := Some (i + 1),
                               snap_title := track_title (ts ! nat (i + 1)),
                               snap_artist := track_artist (ts ! nat (i + 1)),
                               snap_token := Some (track_id (ts ! nat (i + 1)))\<rparr>))\<rparr>)"
proof -
  have upd: "updatePlaylistIndex (persistence hs) (req_userId req) (i + 1) =
           (Inr (Some \<lparr>pl_trackList = ts, pl_currentIndex = i + 1\<rparr>),
            after_save (tick (persistence hs)) (req_userId req)
              (empty_snapshot\<lparr>snap_type := Some ''playlist'', trackList := Some ts,
                 currentIndex := Some (i + 1),
                 updatedAt := Some (clock (persistence hs) (ticks (persistence hs)))\<rparr>))"
    using nf latest st range by (intro updatePlaylistIndex_no_faults) auto
  show ?thesis
    using nf latest ev st range acc url
    by (simp add: AudioPlayerEventHandler_handle_def handle_PlaybackFinished_def play_next_def
        getLatest_no_faults getPlaylist_no_faults upd save_no_faults truthy_def
        type_or_playlist_def Let_def)
qed

lemma demo_latest: "latest_snapshot (demo_service st) ''u1'' = Some st"
  by (simp add: latest_snapshot_def demo_service_def)

lemma demo_clock_ahead: "clock_ahead (demo_service st) ''u1''"
  by (simp add: clock_ahead_def demo_service_def)

lemma clock_ahead_old:
  "clock_ahead svc u \<Longrightarrow>
   \<forall>i \<in> set (items (playbackDb svc)). pb_userId i = u \<longrightarrow> pb_timestamp i \<le> clock svc n"
  by (auto simp: clock_ahead_def)

lemma clock_ahead_mono: "clock_ahead svc u \<Longrightarrow> m \<le> n \<Longrightarrow> clock svc m \<le> clock svc n"
  by (auto simp: clock_ahead_def)

text \<open>The latest snapshot after two saves in a row.\<close>

lemma latest_after_two_saves:
  assumes "clock_ahead svc u"
  shows "latest_snapshot (after_save (after_save (tick svc) u st1) u st2) u = Some st2"
proof -
  let ?first = "after_save (tick svc) u st1"
  have "\<forall>i \<in> set (items (playbackDb ?first)). pb_userId i = u \<longrightarrow> pb_timestamp i \<le> clock svc (ticks svc + 2)"
    using clock_ahead_old [OF assms, of "ticks svc + 2"]
      clock_ahead_mono [OF assms, of "ticks svc + 1" "ticks svc + 2"]
    by (intro items_after_save) auto
  then have "\<forall>i \<in> set (items (playbackDb ?first)). pb_userId i = u \<longrightarrow> pb_timestamp i \<le> clock ?first (ticks ?first)"
    by simp
  from latest_after_save [OF this] show ?thesis .
qed

lemma latest_after_tick_save:
  assumes "clock_ahead svc u"
  shows "latest_snapshot (after_save (tick svc) u st) u = Some st"
proof -
  have "\<forall>i \<in> set (items (playbackDb (tick svc))). pb_userId i = u \<longrightarrow>
          pb_timestamp i \<le> clock (tick svc) (ticks (tick svc))"
    using clock_ahead_old [OF assms, of "ticks svc + 1"] by simp
  from latest_after_save [OF this] show ?thesis .
qed

lemma finished_advance_latest:
  assumes "pending (playbackDb (persistence hs)) = []"
    and "clock_ahead (persistence hs) (req_userId req)"
    and "latest_snapshot (persistence hs) (req_userId req) = Some st"
    and "eventName req = ''PlaybackFinished''"
    and "snap_type st = Some ''playlist''" and "trackList st = Some ts" and "currentIndex st = Some i"
    and "0 \<le> i" and "i < int (length ts) - 1"
    and "req_accessToken req = Some acc" and "acc \<noteq> []"
    and "getStreamUrl acc (track_id (ts ! nat (i + 1))) (req_userId req) = Inr url"
  shows "\<exists>new. latest_snapshot
                 (persistence (snd (AudioPlayerEventHandler_handle getStreamUrl req hs)))
                 (req_userId req) = Some new \<and>
               currentIndex new = Some (i + 1) \<and> offsetInMilliseconds new = Some 0 \<and>
               snap_url new = Some url \<and> snap_token new = Some (track_id (ts ! nat (i + 1))) \<and>
               trackList new = None"
  by (simp add: finished_advance [where getStreamUrl = getStreamUrl, OF assms(1,3-12)]
      latest_after_two_saves [OF assms(2)] empty_snapshot_def)

lemma finished_complete_latest:
  assumes "pending (playbackDb (persistence hs)) = []"
    and "clock_ahead (persistence hs) (req_userId req)"
    and "latest_snapshot (persistence hs) (req_userId req) = Some st"
    and "eventName req = ''PlaybackFinished''"
    and "snap_type st = Some ''playlist''" and "trackList st = Some ts" and "currentIndex st = Some i"
    and "\<not> i < int (length ts) - 1"
  shows "latest_snapshot (persistence (snd (AudioPlayerEventHandler_handle getStreamUrl req hs)))
           (req_userId req)
         = Some (st\<lparr>isComplete := Some True,
                    completedAt := Some (clock (persistence hs) (ticks (persistence hs)))\<rparr>)"
  by (simp add: finished_complete [OF assms(1,3-8)] latest_after_tick_save [OF assms(2)])

lemmas demo_playback_eval =
  demo_handler_state_def demo_service_def demo_state_def demo_request_def demo_stream_def
  demo_tracks_def empty_snapshot_def

lemma demo_state_fields:
  "snap_type (demo_state i tok) = Some ''playlist''"
  "trackList (demo_state i tok) = Some demo_tracks"
  "currentIndex (demo_state i tok) = Some i"
  "snap_token (demo_state i tok) = Some tok"
  by (simp_all add: demo_state_def)

lemma demo_handler_fields:
  "pending (playbackDb (demo_service st)) = []"
  "persistence (demo_handler_state st) = demo_service st"
  "clock (demo_service st) n = 5000 + int n"
  "ticks (demo_service st) = 0"
  by (simp_all add: demo_handler_state_def demo_service_def)

lemma demo_request_fields:
  "eventName (demo_request ev acc tok) = ev"
  "req_userId (demo_request ev acc tok) = ''u1''"
  "req_accessToken (demo_request ev acc tok) = acc"
  "req_token (demo_request ev acc tok) = tok"
  by (simp_all add: demo_request_def)

text \<open>
  Claim C7 (playback advance on Finished), as stated, at a concrete input. The latest
  snapshot of the user is a playlist of four tracks at \<open>currentIndex = 1\<close>. The
  \<open>PlaybackFinished\<close> request carries no access token: the handler returns an empty
  response at the guard \<open>if (!accessToken)\<close>, no stream URL is resolved and nothing is
  appended; the state is what it was.
\<close>

theorem C7_no_access_token_counterexample:
  "latest_snapshot (persistence (demo_handler_state (demo_state 1 ''tr2''))) ''u1''
     = Some (demo_state 1 ''tr2'') \<and>
   currentIndex (demo_state 1 ''tr2'') = Some 1 \<and>
   map_option length (trackList (demo_state 1 ''tr2'')) = Some 4 \<and>
   AudioPlayerEventHandler_handle demo_stream (demo_request ''PlaybackFinished'' None ''tr2'')
     (demo_handler_state (demo_state 1 ''tr2''))
     = (Returned EmptyResponse, demo_handler_state (demo_state 1 ''tr2''))"
proof -
  have "AudioPlayerEventHandler_handle demo_stream (demo_request ''PlaybackFinished'' None ''tr2'')
     (demo_handler_state (demo_state 1 ''tr2''))
     = (Returned EmptyResponse, demo_handler_state (demo_state 1 ''tr2''))"
    by (rule finished_no_token [where st = "demo_state 1 ''tr2''" and ts = demo_tracks and i = 1])
       (simp_all add: demo_handler_fields demo_request_fields demo_latest demo_state_fields
          demo_tracks_def truthy_def)
  then show ?thesis
    by (simp add: demo_handler_fields demo_latest demo_state_fields demo_tracks_def)
qed

text \<open>
  Claim C7, amended. The store accepts every operation, the clock is ahead of the
  table, and the latest snapshot \<open>st\<close> of the user has the type \<open>'playlist'\<close>, the track
  list \<open>ts\<close> and the index \<open>i\<close>; the event is \<open>PlaybackFinished\<close>.
  If \<open>0 \<le> i < length ts - 1\<close>, the request carries an access token and the catalog
  layer resolves the stream URL of the track at \<open>i + 1\<close>, the handler answers with the
  directive to play that URL, and the latest snapshot afterwards has
  \<open>currentIndex = i + 1\<close>, the offset 0 and that URL.
  If \<open>i = length ts - 1\<close>, the response is empty and the latest snapshot afterwards is
  \<open>st\<close> with \<open>isComplete = true\<close> and \<open>completedAt\<close>: the index has not moved.
\<close>

theorem C7_finished_advances_or_completes:
  assumes "pending (playbackDb (persistence hs)) = []"
    and "clock_ahead (persistence hs) (req_userId req)"
    and "latest_snapshot (persistence hs) (req_userId req) = Some st"
    and "eventName req = ''PlaybackFinished''"
    and "snap_type st = Some ''playlist''" and "trackList st = Some ts"
    and "currentIndex st = Some i"
  shows "(0 \<le> i \<and> i < int (length ts) - 1 \<and> req_accessToken req = Some acc \<and> acc \<noteq> [] \<and>
          getStreamUrl acc (track_id (ts ! nat (i + 1))) (req_userId req) = Inr url \<longrightarrow>
            fst (AudioPlayerEventHandler_handle getStreamUrl req hs)
              = Returned (PlayDirective url (track_id (ts ! nat (i + 1))) 0 (i + 1) ts) \<and>
            map_option currentIndex
              (latest_snapshot (persistence (snd (AudioPlayerEventHandler_handle getStreamUrl req hs)))
                 (req_userId req)) = Some (Some (i + 1)) \<and>
            map_option offsetInMilliseconds
              (latest_snapshot (persistence (snd (AudioPlayerEventHandler_handle getStreamUrl req hs)))
                 (req_userId req)) = Some (Some 0) \<and>
            map_option snap_url
              (latest_snapshot (persistence (snd (AudioPlayerEventHandler_handle getStreamUrl req hs)))
                 (req_userId req)) = Some (Some url)) \<and>
         (i = int (length ts) - 1 \<longrightarrow>
            fst (AudioPlayerEventHandler_handle getStreamUrl req hs) = Returned EmptyResponse \<and>
            latest_snapshot (persistence (snd (AudioPlayerEventHandler_handle getStreamUrl req hs)))
              (req_userId req)
              = Some (st\<lparr>isComplete := Some True,
                         completedAt := Some (clock (persistence hs) (ticks (persistence hs)))\<rparr>))"
proof -
  {
    assume a: "0 \<le> i \<and> i < int (length ts) - 1 \<and> req_accessToken req = Some acc \<and> acc \<noteq> [] \<and>
          getStreamUrl acc (track_id (ts ! nat (i + 1))) (req_userId req) = Inr url"
    then have a1: "0 \<le> i" and a2: "i < int (length ts) - 1"
      and a3: "req_accessToken req = Some acc" and a4: "acc \<noteq> []"
      and a5: "getStreamUrl acc (track_id (ts ! nat (i + 1))) (req_userId req) = Inr url" by auto
    have "fst (AudioPlayerEventHandler_handle getStreamUrl req hs)
              = Returned (PlayDirective url (track_id (ts ! nat (i + 1))) 0 (i + 1) ts)"
      by (simp add: finished_advance [where getStreamUrl = getStreamUrl,
            OF assms(1,3,4,5,6,7) a1 a2 a3 a4 a5])
    moreover note finished_advance_latest [where getStreamUrl = getStreamUrl,
        OF assms(1-7) a1 a2 a3 a4 a5]
    ultimately have "fst (AudioPlayerEventHandler_handle getStreamUrl req hs)
              = Returned (PlayDirective url (track_id (ts ! nat (i + 1))) 0 (i + 1) ts) \<and>
            map_option currentIndex
              (latest_snapshot (persistence (snd (AudioPlayerEventHandler_handle getStreamUrl req hs)))
                 (req_userId req)) = Some (Some (i + 1)) \<and>
            map_option offsetInMilliseconds
              (latest_snapshot (persistence (snd (AudioPlayerEventHandler_handle getStreamUrl req hs)))
                 (req_userId req)) = Some (Some 0) \<and>
            map_option snap_url
              (latest_snapshot (persistence (snd (AudioPlayerEventHandler_handle getStreamUrl req hs)))
                 (req_userId req)) = Some (Some url)"
      by auto
  }
  moreover
  {
    assume b: "i = int (length ts) - 1"
    then have b1: "\<not> i < int (length ts) - 1" by simp
    have "fst (AudioPlayerEventHandler_handle getStreamUrl req hs) = Returned EmptyResponse"
      by (simp add: finished_complete [OF assms(1,3,4,5,6,7) b1])
    moreover note finished_complete_latest [OF assms(1-7) b1]
    ultimately have "fst (AudioPlayerEventHandler_handle getStreamUrl req hs) = Returned EmptyResponse \<and>
            latest_snapshot (persistence (snd (AudioPlayerEventHandler_handle getStreamUrl req hs)))
              (req_userId req)
              = Some (st\<lparr>isComplete := Some True,
                         completedAt := Some (clock (persistence hs) (ticks (persistence hs)))\<rparr>)"
      by simp
  }
  ultimately show ?thesis by blast
qed

theorem C7_finished_advances_or_completes_witness:
  "fst (AudioPlayerEventHandler_handle demo_stream
          (demo_request ''PlaybackFinished'' (Some ''T1'') ''tr2'')
          (demo_handler_state (demo_state 1 ''tr2'')))
     = Returned (PlayDirective ''https://stream/tr3'' ''tr3'' 0 2 demo_tracks) \<and>
   map_option currentIndex
     (latest_snapshot
        (persistence (snd (AudioPlayerEventHandler_handle demo_stream
          (demo_request ''PlaybackFinished'' (Some ''T1'') ''tr2'')
          (demo_handler_state (demo_state 1 ''tr2''))))) ''u1'') = Some (Some 2) \<and>
   map_option offsetInMilliseconds
     (latest_snapshot
        (persistence (snd (AudioPlayerEventHandler_handle demo_stream
          (demo_request ''PlaybackFinished'' (Some ''T1'') ''tr2'')
          (demo_handler_state (demo_state 1 ''tr2''))))) ''u1'') = Some (Some 0) \<and>
   latest_snapshot
     (persistence (snd (AudioPlayerEventHandler_handle demo_stream
        (demo_request ''PlaybackFinished'' (Some ''T1'') ''tr4'')
        (demo_handler_state (demo_state 3 ''tr4''))))) ''u1''
     = Some ((demo_state 3 ''tr4'')\<lparr>isComplete := Some True, completedAt := Some 5000\<rparr>)"
proof -
  have adv: "0 \<le> (1::int) \<and> 1 < int (length demo_tracks) - 1 \<and>
      req_accessToken (demo_request ''PlaybackFinished'' (Some ''T1'') ''tr2'') = Some ''T1'' \<and>
      ''T1'' \<noteq> [] \<and>
      demo_stream ''T1'' (track_id (demo_tracks ! nat (1 + 1)))
        (req_userId (demo_request ''PlaybackFinished'' (Some ''T1'') ''tr2'')) = Inr ''https://stream/tr3''"
    by (simp add: demo_request_fields demo_tracks_def demo_stream_def)
  have last: "(3::int) = int (length demo_tracks) - 1" by (simp add: demo_tracks_def)
  have third: "track_id (demo_tracks ! nat (1 + 1)) = ''tr3''" by (simp add: demo_tracks_def)
  note a = C7_finished_advances_or_completes
    [where hs = "demo_handler_state (demo_state 1 ''tr2'')"
       and req = "demo_request ''PlaybackFinished'' (Some ''T1'') ''tr2''"
       and st = "demo_state 1 ''tr2''" and ts = demo_tracks and i = 1
       and getStreamUrl = demo_stream and acc = "''T1''" and url = "''https://stream/tr3''"]
  note b = C7_finished_advances_or_completes
    [where hs = "demo_handler_state (demo_state 3 ''tr4'')"
       and req = "demo_request ''PlaybackFinished'' (Some ''T1'') ''tr4''"
       and st = "demo_state 3 ''tr4''" and ts = demo_tracks and i = 3
       and getStreamUrl = demo_stream and acc = "''T1''" and url = "''https://stream/tr3''"]
  have A: "fst (AudioPlayerEventHandler_handle demo_stream
          (demo_request ''PlaybackFinished'' (Some ''T1'') ''tr2'')
          (demo_handler_state (demo_state 1 ''tr2'')))
     = Returned (PlayDirective ''https://stream/tr3'' ''tr3'' 0 2 demo_tracks) \<and>
   map_option currentIndex
     (latest_snapshot
        (persistence (snd (AudioPlayerEventHandler_handle demo_stream
          (demo_request ''PlaybackFinished'' (Some ''T1'') ''tr2'')
          (demo_handler_state (demo_state 1 ''tr2''))))) ''u1'') = Some (Some 2) \<and>
   map_option offsetInMilliseconds
     (latest_snapshot
        (persistence (snd (AudioPlayerEventHandler_handle demo_stream
          (demo_request ''PlaybackFinished'' (Some ''T1'') ''tr2'')
          (demo_handler_state (demo_state 1 ''tr2''))))) ''u1'') = Some (Some 0)"
    using a adv third
    by (simp add: demo_handler_fields demo_request_fields demo_latest demo_clock_ahead
        demo_state_fields)
  have B: "latest_snapshot
     (persistence (snd (AudioPlayerEventHandler_handle demo_stream
        (demo_request ''PlaybackFinished'' (Some ''T1'') ''tr4'')
        (demo_handler_state (demo_state 3 ''tr4''))))) ''u1''
     = Some ((demo_state 3 ''tr4'')\<lparr>isComplete := Some True, completedAt := Some 5000\<rparr>)"
    using b last
    by (simp add: demo_handler_fields demo_request_fields demo_latest demo_clock_ahead
        demo_state_fields)
  from A B show ?thesis by simp
qed

text \<open>
  Claim C8 (stale Finished event ignored), as stated, at a concrete input. The latest
  snapshot has the token \<open>tr2\<close> and \<open>currentIndex = 1\<close>; the \<open>PlaybackFinished\<close> event
  carries the token \<open>tr9\<close>. The event is not ignored: a snapshot with
  \<open>currentIndex = 2\<close> is the latest one afterwards.
\<close>

theorem C8_stale_finished_counterexample:
  "map_option snap_token
     (latest_snapshot (persistence (demo_handler_state (demo_state 1 ''tr2''))) ''u1'')
     = Some (Some ''tr2'') \<and>
   req_token (demo_request ''PlaybackFinished'' (Some ''T1'') ''tr9'') = ''tr9'' \<and>
   map_option currentIndex
     (latest_snapshot (persistence (demo_handler_state (demo_state 1 ''tr2''))) ''u1'')
     = Some (Some 1) \<and>
   map_option currentIndex
     (latest_snapshot
        (persistence (snd (AudioPlayerEventHandler_handle demo_stream
          (demo_request ''PlaybackFinished'' (Some ''T1'') ''tr9'')
          (demo_handler_state (demo_state 1 ''tr2''))))) ''u1'') = Some (Some 2)"
proof -
  have "\<exists>new. latest_snapshot
                 (persistence (snd (AudioPlayerEventHandler_handle demo_stream
                    (demo_request ''PlaybackFinished'' (Some ''T1'') ''tr9'')
                    (demo_handler_state (demo_state 1 ''tr2'')))))
                 (req_userId (demo_request ''PlaybackFinished'' (Some ''T1'') ''tr9'')) = Some new \<and>
               currentIndex new = Some (1 + 1) \<and> offsetInMilliseconds new = Some 0 \<and>
               snap_url new = Some ''https://stream/tr3'' \<and>
               snap_token new = Some (track_id (demo_tracks ! nat (1 + 1))) \<and>
               trackList new = None"
    by (rule finished_advance_latest [where st = "demo_state 1 ''tr2''" and acc = "''T1''"])
       (simp_all add: demo_handler_fields demo_request_fields demo_latest demo_clock_ahead
          demo_state_fields demo_tracks_def demo_stream_def)
  then show ?thesis
    by (auto simp: demo_handler_fields demo_request_fields demo_latest demo_state_fields)
qed

text \<open>
  Claim C8, amended. The case \<open>PlaybackFinished\<close> does not consult the token of the
  event (it only logs it): two \<open>PlaybackFinished\<close> requests that differ in their token
  only are handled alike, with the same response and the same state afterwards. A stale
  event advances the playlist or marks it complete as a current one does.
\<close>

theorem C8_finished_ignores_token:
  "AudioPlayerEventHandler_handle getStreamUrl
     (req\<lparr>eventName := ''PlaybackFinished'', req_token := t1\<rparr>) hs =
   AudioPlayerEventHandler_handle getStreamUrl
     (req\<lparr>eventName := ''PlaybackFinished'', req_token := t2\<rparr>) hs"
  by (simp add: AudioPlayerEventHandler_handle_def)

text \<open>
  A \<open>PlaybackStopped\<close> event whose token is not that of the latest snapshot: the
  latest snapshot afterwards holds the offset, \<open>pausedAt\<close>, the token and \<open>updatedAt\<close>,
  and nothing of the snapshot before.
\<close>

lemma stopped_stale_token:
  assumes "pending (playbackDb (persistence hs)) = []"
    and "clock_ahead (persistence hs) (req_userId req)"
    and "latest_snapshot (persistence hs) (req_userId req) = Some cur"
    and "eventName req = ''PlaybackStopped''"
    and "snap_token cur \<noteq> Some (req_token req)"
  shows "latest_snapshot (persistence (snd (AudioPlayerEventHandler_handle getStreamUrl req hs)))
           (req_userId req)
         = Some (empty_snapshot
                   \<lparr>offsetInMilliseconds := req_offsetInMilliseconds req,
                    pausedAt := Some (clock (persistence hs) (ticks (persistence hs))),
                    snap_token := Some (req_token req),
                    updatedAt := Some (clock (persistence hs) (ticks (persistence hs) + 1))\<rparr>)"
proof -
  have ahead: "clock_ahead (tick (persistence hs)) (req_userId req)"
    using assms(2) by (simp add: clock_ahead_def)
  show ?thesis
    using assms(1,3,4,5)
    by (simp add: AudioPlayerEventHandler_handle_def handle_PlaybackStopped_def
        getLatest_no_faults new_Date_tick updateTrackState_stale
        latest_after_tick_save [OF ahead])
qed

text \<open>
  Claim C10 (update with a token that does not match). The store accepts every
  operation; the user's latest snapshot \<open>currentState\<close> exists and its token is not
  \<open>tok\<close>; the time of the write is not earlier than the timestamps stored for the user.
  Then \<open>updateTrackState\<close> makes a new latest snapshot out of the assignments of
  \<open>updates\<close> on the empty object, the token and \<open>updatedAt\<close>: the right-hand side does
  not mention \<open>currentState\<close>, so no field of the previous snapshot is carried over
  (for the updates of a \<open>PlaybackStopped\<close> event: no type, no track list, no index).
\<close>

theorem C10_stale_token_replaces_latest:
  assumes "pending (playbackDb svc) = []"
    and "latest_snapshot svc userId = Some currentState"
    and "snap_token currentState \<noteq> Some tok"
    and "\<forall>i \<in> set (items (playbackDb svc)).
           pb_userId i = userId \<longrightarrow> pb_timestamp i \<le> clock svc (ticks svc + 1)"
  shows "latest_snapshot (snd (updateTrackState svc userId tok updates)) userId =
           Some ((updates empty_snapshot)
                   \<lparr>snap_token := Some tok, updatedAt := Some (clock svc (ticks svc))\<rparr>)"
proof -
  have "\<forall>i \<in> set (items (playbackDb (tick svc))).
           pb_userId i = userId \<longrightarrow> pb_timestamp i \<le> clock (tick svc) (ticks (tick svc))"
    using assms(4) by simp
  from latest_after_save [OF this] show ?thesis
    by (simp add: updateTrackState_stale [OF assms(1-3)])
qed

theorem C10_stale_token_replaces_latest_witness:
  "latest_snapshot
     (snd (updateTrackState (demo_service (demo_state 1 ''tr2'')) ''u1'' ''tr9''
             (\<lambda>s. s\<lparr>offsetInMilliseconds := Some 42000, pausedAt := Some 4999\<rparr>))) ''u1''
     = Some (empty_snapshot\<lparr>offsetInMilliseconds := Some 42000, pausedAt := Some 4999,
               snap_token := Some ''tr9'', updatedAt := Some 5000\<rparr>) \<and>
   snap_type (empty_snapshot\<lparr>offsetInMilliseconds := Some 42000, pausedAt := Some 4999,
               snap_token := Some ''tr9'', updatedAt := Some 5000\<rparr>) = None \<and>
   trackList (empty_snapshot\<lparr>offsetInMilliseconds := Some 42000, pausedAt := Some 4999,
               snap_token := Some ''tr9'', updatedAt := Some 5000\<rparr>) = None \<and>
   currentIndex (empty_snapshot\<lparr>offsetInMilliseconds := Some 42000, pausedAt := Some 4999,
               snap_token := Some ''tr9'', updatedAt := Some 5000\<rparr>) = None"
proof -
  have h1: "pending (playbackDb (demo_service (demo_state 1 ''tr2''))) = []"
    by (simp add: demo_handler_fields)
  have h2: "latest_snapshot (demo_service (demo_state 1 ''tr2'')) ''u1'' = Some (demo_state 1 ''tr2'')"
    by (rule demo_latest)
  have h3: "snap_token (demo_state 1 ''tr2'') \<noteq> Some ''tr9''"
    by (simp add: demo_state_fields)
  have h4: "\<forall>i \<in> set (items (playbackDb (demo_service (demo_state 1 ''tr2'')))).
           pb_userId i = ''u1'' \<longrightarrow>
           pb_timestamp i \<le> clock (demo_service (demo_state 1 ''tr2''))
                                (ticks (demo_service (demo_state 1 ''tr2'')) + 1)"
    by (simp add: demo_service_def)
  show ?thesis
    using C10_stale_token_replaces_latest [OF h1 h2 h3 h4,
        of "\<lambda>s. s\<lparr>offsetInMilliseconds := Some 42000, pausedAt := Some 4999\<rparr>"]
    by (simp add: demo_handler_fields empty_snapshot_def)
qed

end
